theory Spec2Isabelle
  imports Complex_Main "HOL-Library.Log_Nat" "HOL-Library.AList" "HOL-Library.Code_Target_Numeral"
begin

section \<open>Python exceptions and builtins\<close>

text \<open>
  The interpreter modelled is Python 3: \<open>/\<close> is true division, \<open>round\<close> rounds half to
  even and returns an \<open>int\<close>, and the \<open>basestring\<close> probe of \<open>validate_string\<close> ends in
  \<open>NameError\<close>.
\<close>

datatype pyerr =
    TypeError
  | ValueError
  | KeyError
  | AttributeError
  | OverflowError
  | InvalidXmlError
  | MissingRequiredAttributeError

subsection \<open>\<open>str(int)\<close> and \<open>int(str)\<close>\<close>

definition digit_char :: "nat \<Rightarrow> char" where
  "digit_char d = ''0123456789ABCDEF'' ! d"

fun dec_digits :: "nat \<Rightarrow> string" where
  "dec_digits n =
     (if n < 10 then [digit_char n] else dec_digits (n div 10) @ [digit_char (n mod 10)])"

definition str_of_int :: "int \<Rightarrow> string" where
  "str_of_int i = (if i < 0 then CHR ''-'' # dec_digits (nat (- i)) else dec_digits (nat i))"

definition is_digit :: "char \<Rightarrow> bool" where
  "is_digit c = (48 \<le> (of_char c :: nat) \<and> (of_char c :: nat) \<le> 57)"

definition digit_val :: "char \<Rightarrow> nat" where
  "digit_val c = of_char c - 48"

definition nat_of_digits :: "string \<Rightarrow> nat" where
  "nat_of_digits ds = foldl (\<lambda>a c. 10 * a + digit_val c) 0 ds"

text \<open>
  The characters \<open>int\<close> and \<open>float\<close> skip as white space around a literal, among
  the code points below 256.
\<close>

definition py_isspace :: "char \<Rightarrow> bool" where
  "py_isspace c =
     (let n = (of_char c :: nat)
      in (9 \<le> n \<and> n \<le> 13) \<or> n = 32 \<or> n = 133 \<or> n = 160)"

definition py_strip :: "string \<Rightarrow> string" where
  "py_strip s = rev (dropWhile py_isspace (rev (dropWhile py_isspace s)))"

text \<open>
  Digit grouping: an underscore is dropped when a digit stands on both of its sides,
  and is an error anywhere else.
\<close>

fun rm_underscores :: "char option \<Rightarrow> string \<Rightarrow> string option" where
  "rm_underscores prev [] = (if prev = Some (CHR ''_'') then None else Some [])"
| "rm_underscores prev (c # cs) =
     (if c = CHR ''_''
      then (if (case prev of Some p \<Rightarrow> is_digit p | None \<Rightarrow> False)
            then rm_underscores (Some c) cs else None)
      else if prev = Some (CHR ''_'') \<and> \<not> is_digit c then None
      else map_option ((#) c) (rm_underscores (Some c) cs))"

text \<open>An optional sign in front of a literal: (negative, the rest).\<close>

definition split_sign :: "string \<Rightarrow> bool \<times> string" where
  "split_sign s =
     (case s of
        [] \<Rightarrow> (False, [])
      | c # r \<Rightarrow> if c = CHR ''-'' then (True, r) else if c = CHR ''+'' then (False, r)
                 else (False, s))"

text \<open>
  \<open>int(s)\<close> in base 10: white space around, an optional sign, one or more digits with
  single underscores between them; \<open>ValueError\<close> otherwise. (The limit that recent
  interpreters put on the number of digits \<open>int(str)\<close> and \<open>str(int)\<close> convert, 4300
  by default, is not modelled.)
\<close>

definition py_int :: "string \<Rightarrow> pyerr + int" where
  "py_int s =
     (case rm_underscores None (snd (split_sign (py_strip s))) of
        None \<Rightarrow> Inl ValueError
      | Some ds \<Rightarrow>
          if ds \<noteq> [] \<and> list_all is_digit ds
          then Inr ((if fst (split_sign (py_strip s)) then - 1 else 1) * int (nat_of_digits ds))
          else Inl ValueError)"

text \<open>\<open>c in s\<close> for a one-character string \<open>c\<close>.\<close>

definition char_in :: "char \<Rightarrow> string \<Rightarrow> bool" where
  "char_in c s = (c \<in> set s)"

subsection \<open>Binary64 floating point\<close>

text \<open>
  A Python \<open>float\<close> is an IEEE 754 binary64 number. A finite one is modelled by the
  rational it denotes (the sign of zero is not kept: no arithmetic below reads it).
  \<open>fl64\<close> rounds a rational to the nearest binary64 number, ties to the even
  significand, as every arithmetic operation and \<open>float(str)\<close> do: the significand
  has 53 bits, the least exponent of a normal number is \<open>-1022\<close>, below it the
  spacing stays \<open>2 powi -1074\<close>, and a result of magnitude \<open>2 powi 1024\<close>
  or more is an infinity.
\<close>

datatype pyfloat = Finite rat | PosInf | NegInf | NaN

definition round_half_even :: "rat \<Rightarrow> int" where
  "round_half_even x =
     (let f = \<lfloor>x\<rfloor>; d = x - of_int f
      in if d < 1 / 2 then f else if 1 / 2 < d then f + 1 else if even f then f else f + 1)"

text \<open>For \<open>0 < x\<close>: the \<open>e\<close> with \<open>2 powi e \<le> x < 2 powi (e + 1)\<close>.\<close>

definition floor_log2 :: "rat \<Rightarrow> int" where
  "floor_log2 x =
     (let e0 = bitlen (fst (quotient_of x)) - bitlen (snd (quotient_of x))
      in if 2 powi e0 \<le> x then e0 else e0 - 1)"

definition fl64 :: "rat \<Rightarrow> pyfloat" where
  "fl64 x =
     (if x = 0 then Finite 0
      else
        let a = \<bar>x\<bar>;
            e = max (floor_log2 a) (- 1022);
            q = 2 powi (e - 52);
            y = of_int (round_half_even (a / q)) * q
        in if 2 powi 1024 \<le> y then (if 0 < x then PosInf else NegInf)
           else Finite (sgn x * y))"

text \<open>\<open>float(n)\<close> of an \<open>int\<close>, also the conversion of an \<open>int\<close> operand of \<open>/\<close> and \<open>*\<close>.\<close>

definition float_of_int :: "int \<Rightarrow> pyerr + pyfloat" where
  "float_of_int n =
     (case fl64 (of_int n) of
        Finite r \<Rightarrow> Inr (Finite r)
      | PosInf \<Rightarrow> Inl OverflowError
      | NegInf \<Rightarrow> Inl OverflowError
      | NaN \<Rightarrow> Inl OverflowError)"

text \<open>\<open>x * c\<close> and \<open>x / c\<close> for a positive finite constant \<open>c\<close>.\<close>

definition float_times :: "pyfloat \<Rightarrow> rat \<Rightarrow> pyfloat" where
  "float_times x c =
     (case x of Finite a \<Rightarrow> fl64 (a * c) | PosInf \<Rightarrow> PosInf | NegInf \<Rightarrow> NegInf | NaN \<Rightarrow> NaN)"

definition float_over :: "pyfloat \<Rightarrow> rat \<Rightarrow> pyfloat" where
  "float_over x c =
     (case x of Finite a \<Rightarrow> fl64 (a / c) | PosInf \<Rightarrow> PosInf | NegInf \<Rightarrow> NegInf | NaN \<Rightarrow> NaN)"

text \<open>\<open>int(x)\<close> of a \<open>float\<close>: truncation toward zero.\<close>

definition int_of_float :: "pyfloat \<Rightarrow> pyerr + int" where
  "int_of_float x =
     (case x of
        Finite a \<Rightarrow> Inr (if 0 \<le> a then \<lfloor>a\<rfloor> else \<lceil>a\<rceil>)
      | PosInf \<Rightarrow> Inl OverflowError
      | NegInf \<Rightarrow> Inl OverflowError
      | NaN \<Rightarrow> Inl ValueError)"

text \<open>\<open>round(x)\<close> of a \<open>float\<close>: the nearest \<open>int\<close>, ties to the even one.\<close>

definition py_round :: "pyfloat \<Rightarrow> pyerr + int" where
  "py_round x =
     (case x of
        Finite a \<Rightarrow> Inr (round_half_even a)
      | PosInf \<Rightarrow> Inl OverflowError
      | NegInf \<Rightarrow> Inl OverflowError
      | NaN \<Rightarrow> Inl ValueError)"

subsection \<open>\<open>float(str)\<close>\<close>

definition to_lower :: "char \<Rightarrow> char" where
  "to_lower c =
     (if 65 \<le> (of_char c :: nat) \<and> (of_char c :: nat) \<le> 90 then char_of (of_char c + 32 :: nat)
      else c)"

definition is_exp_mark :: "char \<Rightarrow> bool" where
  "is_exp_mark c = (c = CHR ''e'' \<or> c = CHR ''E'')"

text \<open>
  The exponent of a decimal literal, from the text after the mantissa: empty, or
  \<open>e\<close>, an optional sign and one or more digits.
\<close>

definition parse_exponent :: "string \<Rightarrow> int option" where
  "parse_exponent s =
     (case s of
        [] \<Rightarrow> Some 0
      | c # r \<Rightarrow>
          let ds = snd (split_sign r)
          in if is_exp_mark c \<and> ds \<noteq> [] \<and> list_all is_digit ds
             then Some ((if fst (split_sign r) then - 1 else 1) * int (nat_of_digits ds))
             else None)"

text \<open>
  The value of an unsigned decimal literal: digits, an optional point with digits on
  either side of it (one digit at least in all), an optional exponent.
\<close>

definition parse_decimal :: "string \<Rightarrow> rat option" where
  "parse_decimal s =
     (let mant = takeWhile (\<lambda>c. \<not> is_exp_mark c) s;
          ip = takeWhile (\<lambda>c. c \<noteq> CHR ''.'') mant;
          fp = drop (Suc (length ip)) mant
      in if list_all is_digit ip \<and> list_all is_digit fp \<and> ip @ fp \<noteq> []
         then (case parse_exponent (dropWhile (\<lambda>c. \<not> is_exp_mark c) s) of
                 None \<Rightarrow> None
               | Some ex \<Rightarrow>
                   Some (of_nat (nat_of_digits (ip @ fp)) / 10 ^ length fp * 10 powi ex))
         else None)"

text \<open>
  \<open>float(s)\<close>: white space around, underscores between digits, an optional sign,
  then \<open>inf\<close>, \<open>infinity\<close> or \<open>nan\<close> in any case, or a decimal literal, whose
  value is rounded to the nearest binary64 number; \<open>ValueError\<close> otherwise.
\<close>

definition py_float :: "string \<Rightarrow> pyerr + pyfloat" where
  "py_float s =
     (case rm_underscores None (py_strip s) of
        None \<Rightarrow> Inl ValueError
      | Some t \<Rightarrow>
          let neg = fst (split_sign t); body = snd (split_sign t); low = map to_lower body
          in if low = ''inf'' \<or> low = ''infinity'' then Inr (if neg then NegInf else PosInf)
             else if low = ''nan'' then Inr NaN
             else (case parse_decimal body of
                     None \<Rightarrow> Inl ValueError
                   | Some r \<Rightarrow> Inr (fl64 (if neg then - r else r))))"

subsection \<open>\<open>str(float)\<close>\<close>

text \<open>For \<open>0 < x\<close>: the \<open>k\<close> with \<open>10 powi k \<le> x < 10 powi (k + 1)\<close>.\<close>

definition floor_log10 :: "rat \<Rightarrow> int" where
  "floor_log10 x =
     (let k0 = int (floorlog 10 (nat (fst (quotient_of x))))
               - int (floorlog 10 (nat (snd (quotient_of x))))
      in if 10 powi k0 \<le> x then k0 else k0 - 1)"

text \<open>
  \<open>str\<close> of a \<open>float\<close> is its \<open>repr\<close>: the shortest decimal that \<open>float\<close> reads back as
  the same number and, among the decimals of that length, the one nearest to it (the
  one with the even last digit when two are as near). \<open>(d, j)\<close> stands for the decimal
  \<open>d * 10 powi j\<close>; \<open>nearest_decimal n x\<close> looks among the decimals of \<open>n\<close> digits, of
  which only the two around \<open>x\<close> can read back as \<open>x\<close>.
\<close>

definition reads_back :: "rat \<Rightarrow> int \<Rightarrow> int \<Rightarrow> bool" where
  "reads_back x d j = (fl64 (of_int d * 10 powi j) = Finite x)"

definition nearest_decimal :: "nat \<Rightarrow> rat \<Rightarrow> (int \<times> int) option" where
  "nearest_decimal n x =
     (let j = floor_log10 x - int n + 1;
          s = 10 powi j;
          lo = \<lfloor>x / s\<rfloor>;
          hi = lo + 1;
          below = x - of_int lo * s;
          above = of_int hi * s - x
      in if reads_back x lo j \<and> reads_back x hi j
         then Some (if below < above \<or> (below = above \<and> even lo) then lo else hi, j)
         else if reads_back x lo j then Some (lo, j)
         else if reads_back x hi j then Some (hi, j)
         else None)"

text \<open>Seventeen digits are enough for every binary64 number.\<close>

definition shortest_decimal :: "rat \<Rightarrow> int \<times> int" where
  "shortest_decimal x =
     (case List.map_filter (\<lambda>n. nearest_decimal n x) [1..<18] of
        r # rs \<Rightarrow> r
      | [] \<Rightarrow> (round_half_even (x / 10 powi (floor_log10 x - 16)), floor_log10 x - 16))"

fun strip_zeros :: "nat \<Rightarrow> int \<Rightarrow> nat \<times> int" where
  "strip_zeros d j =
     (if 0 < d \<and> d mod 10 = 0 then strip_zeros (d div 10) (j + 1) else (d, j))"

text \<open>The exponent of the scientific notation: a sign and two digits at least.\<close>

definition exp_digits :: "int \<Rightarrow> string" where
  "exp_digits e =
     (if e < 0 then CHR ''-'' else CHR ''+'')
     # (if \<bar>e\<bar> < 10 then CHR ''0'' # dec_digits (nat \<bar>e\<bar>) else dec_digits (nat \<bar>e\<bar>))"

text \<open>
  The digits \<open>ds\<close> with the decimal point after the first \<open>decpt\<close> of them: in
  scientific notation when \<open>decpt\<close> is below \<open>-3\<close> or above 16, in positional notation
  with a digit on each side of the point otherwise.
\<close>

definition repr_pos :: "rat \<Rightarrow> string" where
  "repr_pos x =
     (let dj = strip_zeros (nat (fst (shortest_decimal x))) (snd (shortest_decimal x));
          ds = dec_digits (fst dj);
          nd = int (length ds);
          decpt = snd dj + nd
      in if decpt \<le> - 4 \<or> 16 < decpt
         then hd ds # (if 1 < nd then CHR ''.'' # tl ds else []) @ CHR ''e'' # exp_digits (decpt - 1)
         else if decpt \<le> 0 then ''0.'' @ replicate (nat (- decpt)) CHR ''0'' @ ds
         else if nd \<le> decpt then ds @ replicate (nat (decpt - nd)) CHR ''0'' @ ''.0''
         else take (nat decpt) ds @ CHR ''.'' # drop (nat decpt) ds)"

definition float_repr :: "pyfloat \<Rightarrow> string" where
  "float_repr x =
     (case x of
        Finite a \<Rightarrow>
          if a = 0 then ''0.0'' else if a < 0 then CHR ''-'' # repr_pos (- a) else repr_pos a
      | PosInf \<Rightarrow> ''inf''
      | NegInf \<Rightarrow> ''-inf''
      | NaN \<Rightarrow> ''nan'')"

subsection \<open>Hexadecimal\<close>

fun hex_digits :: "nat \<Rightarrow> string" where
  "hex_digits n =
     (if n < 16 then [digit_char n] else hex_digits (n div 16) @ [digit_char (n mod 16)])"

text \<open>\<open>'%02X' % n\<close>: upper-case hexadecimal, padded with a zero to two characters.\<close>

definition fmt_02X :: "nat \<Rightarrow> string" where
  "fmt_02X n = (if n < 16 then CHR ''0'' # hex_digits n else hex_digits n)"

definition is_hex_digit :: "char \<Rightarrow> bool" where
  "is_hex_digit c =
     (let n = (of_char c :: nat)
      in (48 \<le> n \<and> n \<le> 57) \<or> (65 \<le> n \<and> n \<le> 70) \<or> (97 \<le> n \<and> n \<le> 102))"

definition hex_val :: "char \<Rightarrow> nat" where
  "hex_val c =
     (let n = (of_char c :: nat)
      in if n \<le> 57 then n - 48 else if n \<le> 70 then n - 55 else n - 87)"

subsection \<open>Sequencing of calls that may raise\<close>

definition seq :: "pyerr + 'a \<Rightarrow> ('a \<Rightarrow> pyerr + 'b) \<Rightarrow> pyerr + 'b" where
  "seq r f = (case r of Inl e \<Rightarrow> Inl e | Inr x \<Rightarrow> f x)"

section \<open>Python values\<close>

text \<open>
  The simple types of \<^verbatim>\<open>docx/oxml/simpletypes.py\<close> are duck-typed: every method takes
  an arbitrary Python object. The values that reach them are modelled by \<open>pyval\<close>:
  \<open>None\<close>, \<open>bool\<close>, \<open>int\<close> (unbounded; a \<open>Length\<close> is an \<open>int\<close> subclass and is
  modelled as its \<open>int\<close>), \<open>float\<close>, \<open>str\<close> (code points below 256) and \<open>RGBColor\<close> (a
  3-tuple subclass). A \<open>float\<close> is \<open>PyFloat x\<close> for a binary64 number \<open>x\<close>; \<open>pyfloat\<close> does
  not keep the sign of zero, so \<open>PyFloat (Finite 0)\<close> is \<open>0.0\<close> and the float \<open>-0.0\<close> is
  \<open>PyNegZero\<close>.
\<close>

datatype pyval =
    PyNone
  | PyBool bool
  | PyInt int
  | PyFloat pyfloat
  | PyNegZero
  | PyStr string
  | PyRGBColor nat nat nat

text \<open>\<open>isinstance(value, int)\<close>: \<open>bool\<close> is a subclass of \<open>int\<close>, \<open>float\<close> is not.\<close>

fun as_int :: "pyval \<Rightarrow> int option" where
  "as_int (PyInt n) = Some n"
| "as_int (PyBool b) = Some (if b then 1 else 0)"
| "as_int PyNone = None"
| "as_int (PyFloat x) = None"
| "as_int PyNegZero = None"
| "as_int (PyStr s) = None"
| "as_int (PyRGBColor r g b) = None"

text \<open>
  The number that a \<open>bool\<close>, an \<open>int\<close> or a \<open>float\<close> denotes, as \<open>==\<close> reads it: an
  \<open>int\<close> and a \<open>float\<close> are compared by their exact values, without rounding the
  \<open>int\<close>.
\<close>

fun as_num :: "pyval \<Rightarrow> pyfloat option" where
  "as_num (PyInt n) = Some (Finite (of_int n))"
| "as_num (PyBool b) = Some (Finite (if b then 1 else 0))"
| "as_num (PyFloat x) = Some x"
| "as_num PyNegZero = Some (Finite 0)"
| "as_num PyNone = None"
| "as_num (PyStr s) = None"
| "as_num (PyRGBColor r g b) = None"

text \<open>
  Python's \<open>==\<close>: numbers (\<open>bool\<close> included) compare by value, so \<open>1 == True\<close>,
  \<open>1.0 == True\<close> and \<open>-0.0 == False\<close>, and \<open>nan\<close> is equal to nothing; a number is
  unequal to a value of any other kind; strings are equal when they are the same text
  and colours when they have the same components.
\<close>

definition py_eq :: "pyval \<Rightarrow> pyval \<Rightarrow> bool" where
  "py_eq a b =
     (case (as_num a, as_num b) of
        (Some x, Some y) \<Rightarrow> x \<noteq> NaN \<and> x = y
      | (None, None) \<Rightarrow> a = b
      | (Some x, None) \<Rightarrow> False
      | (None, Some y) \<Rightarrow> False)"

text \<open>
  \<open>value in (x1, ..., xn)\<close>: some member is \<open>==\<close> to the value (or is the value itself,
  which adds nothing for the tuples of the module: their members are \<open>True\<close>, \<open>False\<close>
  and strings, all equal to themselves).
\<close>

definition py_in :: "pyval \<Rightarrow> pyval list \<Rightarrow> bool" where
  "py_in v xs = list_ex (\<lambda>x. py_eq x v) xs"

section \<open>Lengths and colours of \<^verbatim>\<open>docx/shared.py\<close>\<close>

text \<open>
  Modelled from the spec: the module \<^verbatim>\<open>docx/shared.py\<close>, which declares \<open>Length\<close>,
  \<open>Emu\<close>, \<open>Pt\<close>, \<open>Twips\<close>, \<open>EighthsOfPoint\<close> and \<open>RGBColor\<close>, is not among the sources.
  The spec's glossary gives 914400 EMU to the inch and 1440 twips to the inch with 20
  twips to the point, hence 12700 EMU to the point and 635 to the twip; the source's
  own table has 152400 EMU to the pica of 12 points; \<open>"2.54cm"\<close> is 914400 EMU, hence
  360000 EMU to the centimetre and 36000 to the millimetre.
\<close>

definition EMUS_PER_INCH :: int where
  "EMUS_PER_INCH = 914400"

definition EMUS_PER_CM :: int where
  "EMUS_PER_CM = 360000"

definition EMUS_PER_MM :: int where
  "EMUS_PER_MM = 36000"

definition EMUS_PER_PT :: int where
  "EMUS_PER_PT = 12700"

definition EMUS_PER_TWIP :: int where
  "EMUS_PER_TWIP = 635"

text \<open>
  Modelled from the spec: \<open>Emu(value)\<close> is the length of \<open>value\<close> EMU, "carried
  internally in a single fine-grained unit" as an \<open>int\<close>. The spec says nothing of a
  \<open>value\<close> that is not an \<open>int\<close>; the model raises \<open>TypeError\<close> there.
\<close>

definition Emu :: "pyval \<Rightarrow> pyerr + int" where
  "Emu v = (case as_int v of None \<Rightarrow> Inl TypeError | Some n \<Rightarrow> Inr n)"

text \<open>
  Modelled from the spec: \<open>Pt(points)\<close>, \<open>Twips(twips)\<close> and \<open>EighthsOfPoint(n)\<close> are
  the "non-suffixed numeric length literals ... interpreted in the type's native unit
  ... and converted to the internal EMU representation": the quantity times the
  unit's EMU factor, as an \<open>int\<close>. \<open>Pt\<close> is applied to an \<open>int\<close> by \<open>ST_PtsMeasure\<close>
  and to a \<open>float\<close> by \<open>ST_HpsMeasure\<close>; an eighth of a point is 1587.5 EMU, so that
  product is a \<open>float\<close>.
\<close>

definition Pt :: "int \<Rightarrow> int" where
  "Pt points = points * EMUS_PER_PT"

definition Pt_float :: "pyfloat \<Rightarrow> pyerr + int" where
  "Pt_float points = int_of_float (float_times points (of_int EMUS_PER_PT))"

definition Twips :: "int \<Rightarrow> int" where
  "Twips twips = twips * EMUS_PER_TWIP"

definition EighthsOfPoint :: "int \<Rightarrow> pyerr + int" where
  "EighthsOfPoint n = seq (float_of_int n) (\<lambda>x. int_of_float (float_times x (3175 / 2)))"

text \<open>
  Modelled from the spec: the "derived accessors for points/twips/eighths-of-a-point"
  of a length. \<open>pt\<close> is the length in points, a \<open>float\<close> (the source truncates it
  itself); \<open>twips\<close> and \<open>eighths_of_point\<close> "convert then truncate toward zero".
\<close>

definition Length_pt :: "int \<Rightarrow> pyerr + pyfloat" where
  "Length_pt emu = seq (float_of_int emu) (\<lambda>x. Inr (float_over x (of_int EMUS_PER_PT)))"

definition Length_twips :: "int \<Rightarrow> pyerr + int" where
  "Length_twips emu =
     seq (float_of_int emu) (\<lambda>x. int_of_float (float_over x (of_int EMUS_PER_TWIP)))"

definition Length_eighths_of_point :: "int \<Rightarrow> pyerr + int" where
  "Length_eighths_of_point emu =
     seq (float_of_int emu) (\<lambda>x. int_of_float (float_over x (3175 / 2)))"

text \<open>
  Modelled from the spec: \<open>RGBColor.from_string\<close> reads an "RGB color triple" from
  "six ... hex digits"; a "bad hex-color length" (or a character that is no hex digit)
  is malformed, here \<open>ValueError\<close>.
\<close>

definition RGBColor_from_string :: "string \<Rightarrow> pyerr + pyval" where
  "RGBColor_from_string s =
     (case s of
        [r1, r0, g1, g0, b1, b0] \<Rightarrow>
          if list_all is_hex_digit s
          then Inr (PyRGBColor (16 * hex_val r1 + hex_val r0) (16 * hex_val g1 + hex_val g0)
                      (16 * hex_val b1 + hex_val b0))
          else Inl ValueError
      | _ \<Rightarrow> Inl ValueError)"

section \<open>The simple types of \<^verbatim>\<open>docx/oxml/simpletypes.py\<close>\<close>

text \<open>One constructor for each class of the module, in the order of the source.\<close>

datatype simpletype =
    BaseSimpleType
  | BaseIntType
  | BaseStringType
  | BaseStringEnumerationType
  | XsdAnyUri
  | XsdBoolean
  | XsdId
  | XsdInt
  | XsdLong
  | XsdString
  | XsdStringEnumeration
  | XsdToken
  | XsdUnsignedInt
  | XsdUnsignedLong
  | ST_BrClear
  | ST_BrType
  | ST_Coordinate
  | ST_CoordinateUnqualified
  | ST_DecimalNumber
  | ST_DrawingElementId
  | ST_HexColor
  | ST_HexColorAuto
  | ST_HpsMeasure
  | ST_PtsMeasure
  | ST_Merge
  | ST_OnOff
  | ST_PositiveCoordinate
  | ST_RelationshipId
  | ST_SignedTwipsMeasure
  | ST_String
  | ST_TblLayoutType
  | ST_TblWidth
  | ST_TwipsMeasure
  | ST_EighthsOfPointMeasure
  | ST_UniversalMeasure
  | ST_VerticalAlignRun
  | ST_BorderValue

subsection \<open>The helpers of \<open>BaseSimpleType\<close>\<close>

definition validate_int :: "pyval \<Rightarrow> pyerr + unit" where
  "validate_int v = (case as_int v of None \<Rightarrow> Inl TypeError | Some n \<Rightarrow> Inr ())"

definition validate_int_in_range :: "pyval \<Rightarrow> int \<Rightarrow> int \<Rightarrow> pyerr + unit" where
  "validate_int_in_range v min_inclusive max_inclusive =
     (case as_int v of
        None \<Rightarrow> Inl TypeError
      | Some n \<Rightarrow> if n < min_inclusive \<or> n > max_inclusive then Inl ValueError else Inr ())"

fun validate_string :: "pyval \<Rightarrow> pyerr + unit" where
  "validate_string (PyStr s) = Inr ()"
| "validate_string PyNone = Inl TypeError"
| "validate_string (PyBool b) = Inl TypeError"
| "validate_string (PyInt n) = Inl TypeError"
| "validate_string (PyFloat x) = Inl TypeError"
| "validate_string PyNegZero = Inl TypeError"
| "validate_string (PyRGBColor r g b) = Inl TypeError"

text \<open>
  The body shared by every enumeration's \<open>validate\<close>: \<open>validate_string\<close>, then
  \<open>ValueError\<close> unless \<open>value in members\<close>.
\<close>

definition validate_members :: "string list \<Rightarrow> pyval \<Rightarrow> pyerr + unit" where
  "validate_members members v =
     seq (validate_string v)
       (\<lambda>_. if \<not> py_in v (map PyStr members) then Inl ValueError else Inr ())"

subsection \<open>The member tuples\<close>

definition ST_HexColorAuto_members :: "string list" where
  "ST_HexColorAuto_members = [''auto'']"

definition ST_Merge_members :: "string list" where
  "ST_Merge_members = [''continue'', ''restart'']"

definition ST_VerticalAlignRun_members :: "string list" where
  "ST_VerticalAlignRun_members = [''baseline'', ''superscript'', ''subscript'']"

definition ST_BorderValue_members :: "string list" where
  "ST_BorderValue_members =
    [''apples'', ''archedScallops'', ''babyPacifier'', ''babyRattle'', ''balloons3Colors'',
     ''balloonsHotAir'', ''basicBlackDashes'', ''basicBlackDots'', ''basicBlackSquares'',
     ''basicThinLines'', ''basicWhiteDashes'', ''basicWhiteDots'', ''basicWhiteSquares'',
     ''basicWideInline'', ''basicWideMidline'', ''basicWideOutline'', ''bats'', ''birds'',
     ''birdsFlight'', ''cabins'', ''cakeSlice'', ''candyCorn'', ''celticKnotwork'',
     ''certificateBanner'', ''chainLink'', ''champagneBottle'', ''checkedBarBlack'',
     ''checkedBarColor'', ''checkered'', ''christmasTree'', ''circlesLines'',
     ''circlesRectangles'', ''classicalWave'', ''clocks'', ''compass'', ''confetti'',
     ''confettiGrays'', ''confettiOutline'', ''confettiStreamers'', ''confettiWhite'',
     ''cornerTriangles'', ''couponCutoutDashes'', ''couponCutoutDots'', ''crazyMaze'',
     ''creaturesButterfly'', ''creaturesFish'', ''creaturesInsects'', ''creaturesLadyBug'',
     ''crossStitch'', ''cup'', ''dashDotStroked'', ''dashed'', ''dashSmallGap'',
     ''decoArch'', ''decoArchColor'', ''decoBlocks'', ''diamondsGray'', ''dotDash'',
     ''dotDotDash'', ''dotted'', ''double'', ''doubleD'', ''doubleDiamonds'', ''doubleWave'',
     ''earth1'', ''earth2'', ''eclipsingSquares1'', ''eclipsingSquares2'', ''eggsBlack'',
     ''fans'', ''film'', ''firecrackers'', ''flowersBlockPrint'', ''flowersDaisies'',
     ''flowersModern1'', ''flowersModern2'', ''flowersPansy'', ''flowersRedRose'',
     ''flowersRoses'', ''flowersTeacup'', ''flowersTiny'', ''gems'', ''gingerbreadMan'',
     ''gradient'', ''handmade1'', ''handmade2'', ''heartBalloon'', ''heartGray'', ''hearts'',
     ''heebieJeebies'', ''holly'', ''houseFunky'', ''hypnotic'', ''iceCreamCones'',
     ''inset'', ''lightBulb'', ''lightning1'', ''lightning2'', ''mapleLeaf'',
     ''mapleMuffins'', ''mapPins'', ''marquee'', ''marqueeToothed'', ''moons'', ''mosaic'',
     ''musicNotes'', ''nil'', ''none'', ''northwest'', ''outset'', ''ovals'', ''packages'',
     ''palmsBlack'', ''palmsColor'', ''paperClips'', ''papyrus'', ''partyFavor'',
     ''partyGlass'', ''pencils'', ''people'', ''peopleHats'', ''peopleWaving'',
     ''poinsettias'', ''postageStamp'', ''pumpkin1'', ''pushPinNote1'', ''pushPinNote2'',
     ''pyramids'', ''pyramidsAbove'', ''quadrants'', ''rings'', ''safari'', ''sawtooth'',
     ''sawtoothGray'', ''scaredCat'', ''seattle'', ''shadowedSquares'', ''shapes1'',
     ''shapes2'', ''sharksTeeth'', ''shorebirdTracks'', ''single'', ''skyrocket'',
     ''snowflakeFancy'', ''snowflakes'', ''sombrero'', ''southwest'', ''stars'', ''stars3d'',
     ''starsBlack'', ''starsShadowed'', ''starsTop'', ''sun'', ''swirligig'', ''thick'',
     ''thickThinLargeGap'', ''thickThinMediumGap'', ''thickThinSmallGap'',
     ''thinThickLargeGap'', ''thinThickMediumGap'', ''thinThickSmallGap'',
     ''thinThickThinLargeGap'', ''thinThickThinMediumGap'', ''thinThickThinSmallGap'',
     ''threeDEmboss'', ''threeDEngrave'', ''tornPaper'', ''tornPaperBlack'', ''trees'',
     ''triangle1'', ''triangle2'', ''triangleCircle1'', ''triangleCircle2'',
     ''triangleParty'', ''triangles'', ''tribal1'', ''tribal2'', ''tribal3'', ''tribal4'',
     ''tribal5'', ''tribal6'', ''triple'', ''twistedLines1'', ''twistedLines2'', ''vine'',
     ''wave'', ''waveline'', ''weavingAngles'', ''weavingBraid'', ''weavingRibbon'',
     ''weavingStrips'', ''whiteFlowers'', ''woodwork'', ''xIllusions'', ''zanyTriangles'',
     ''zigZag'', ''zigZagStitch'']"

subsection \<open>\<open>validate\<close>\<close>

text \<open>
  Each class with the \<open>validate\<close> its method resolution finds. \<open>BaseSimpleType\<close> and
  \<open>ST_UniversalMeasure\<close> have none, and \<open>BaseStringEnumerationType\<close> and
  \<open>XsdStringEnumeration\<close> have no \<open>_members\<close>: \<open>AttributeError\<close>.
  \<open>ST_Coordinate.validate\<close> calls \<open>ST_CoordinateUnqualified.validate\<close>, written out
  here.
\<close>

fun validate :: "simpletype \<Rightarrow> pyval \<Rightarrow> pyerr + unit" where
  "validate BaseSimpleType v = Inl AttributeError"
| "validate BaseIntType v = validate_int v"
| "validate BaseStringType v = validate_string v"
| "validate BaseStringEnumerationType v = seq (validate_string v) (\<lambda>_. Inl AttributeError)"
| "validate XsdAnyUri v = validate_string v"
| "validate XsdBoolean v =
     (if \<not> py_in v [PyBool True, PyBool False] then Inl TypeError else Inr ())"
| "validate XsdId v = validate_string v"
| "validate XsdInt v = validate_int_in_range v (- 2147483648) 2147483647"
| "validate XsdLong v = validate_int_in_range v (- 9223372036854775808) 9223372036854775807"
| "validate XsdString v = validate_string v"
| "validate XsdStringEnumeration v = seq (validate_string v) (\<lambda>_. Inl AttributeError)"
| "validate XsdToken v = validate_string v"
| "validate XsdUnsignedInt v = validate_int_in_range v 0 4294967295"
| "validate XsdUnsignedLong v = validate_int_in_range v 0 18446744073709551615"
| "validate ST_BrClear v = validate_members [''none'', ''left'', ''right'', ''all''] v"
| "validate ST_BrType v = validate_members [''page'', ''column'', ''textWrapping''] v"
| "validate ST_Coordinate v = validate_int_in_range v (- 27273042329600) 27273042316900"
| "validate ST_CoordinateUnqualified v =
     validate_int_in_range v (- 27273042329600) 27273042316900"
| "validate ST_DecimalNumber v = validate_int_in_range v (- 2147483648) 2147483647"
| "validate ST_DrawingElementId v = validate_int_in_range v 0 4294967295"
| "validate ST_HexColor v =
     (case v of PyRGBColor r g b \<Rightarrow> Inr () | _ \<Rightarrow> Inl ValueError)"
| "validate ST_HexColorAuto v = validate_members ST_HexColorAuto_members v"
| "validate ST_HpsMeasure v = validate_int_in_range v 0 18446744073709551615"
| "validate ST_PtsMeasure v = validate_int_in_range v 0 18446744073709551615"
| "validate ST_Merge v = validate_members ST_Merge_members v"
| "validate ST_OnOff v =
     (if \<not> py_in v [PyBool True, PyBool False] then Inl TypeError else Inr ())"
| "validate ST_PositiveCoordinate v = validate_int_in_range v 0 27273042316900"
| "validate ST_RelationshipId v = validate_string v"
| "validate ST_SignedTwipsMeasure v = validate_int_in_range v (- 2147483648) 2147483647"
| "validate ST_String v = validate_string v"
| "validate ST_TblLayoutType v = validate_members [''fixed'', ''autofit''] v"
| "validate ST_TblWidth v = validate_members [''auto'', ''dxa'', ''nil'', ''pct''] v"
| "validate ST_TwipsMeasure v = validate_int_in_range v 0 18446744073709551615"
| "validate ST_EighthsOfPointMeasure v = validate_int_in_range v 0 18446744073709551615"
| "validate ST_UniversalMeasure v = Inl AttributeError"
| "validate ST_VerticalAlignRun v = validate_members ST_VerticalAlignRun_members v"
| "validate ST_BorderValue v = validate_members ST_BorderValue_members v"

subsection \<open>\<open>convert_from_xml\<close>\<close>

text \<open>
  \<open>ST_UniversalMeasure.convert_from_xml\<close>: the text without its last two characters
  is the quantity, read by \<open>float\<close>; the last two are the unit, looked up in the
  table of EMU factors (\<open>KeyError\<close> when it is not there); the product is rounded by
  \<open>round\<close>.
\<close>

definition multiplier :: "string \<Rightarrow> pyerr + int" where
  "multiplier units_part =
     (case map_of
        [(''mm'', EMUS_PER_MM), (''cm'', EMUS_PER_CM), (''in'', 914400),
         (''pt'', EMUS_PER_PT), (''pc'', 152400), (''pi'', 152400)] units_part of
        None \<Rightarrow> Inl KeyError
      | Some m \<Rightarrow> Inr m)"

definition universal_measure :: "string \<Rightarrow> pyerr + pyval" where
  "universal_measure str_value =
     (let float_part = take (length str_value - 2) str_value;
          units_part = drop (length str_value - 2) str_value
      in seq (py_float float_part) (\<lambda>quantity.
         seq (multiplier units_part) (\<lambda>m.
         seq (py_round (float_times quantity (of_int m))) (\<lambda>emu_value.
         Inr (PyInt emu_value)))))"

text \<open>\<open>BaseIntType.convert_from_xml\<close>: \<open>int(str_value)\<close>.\<close>

definition int_from_xml :: "string \<Rightarrow> pyerr + pyval" where
  "int_from_xml str_value = seq (py_int str_value) (\<lambda>n. Inr (PyInt n))"

text \<open>
  Each class with the \<open>convert_from_xml\<close> its method resolution finds
  (\<open>BaseSimpleType\<close> has none).
\<close>

fun convert_from_xml :: "simpletype \<Rightarrow> string \<Rightarrow> pyerr + pyval" where
  "convert_from_xml BaseSimpleType s = Inl AttributeError"
| "convert_from_xml BaseIntType s = int_from_xml s"
| "convert_from_xml BaseStringType s = Inr (PyStr s)"
| "convert_from_xml BaseStringEnumerationType s = Inr (PyStr s)"
| "convert_from_xml XsdAnyUri s = Inr (PyStr s)"
| "convert_from_xml XsdBoolean s =
     (if s \<notin> set [''1'', ''0'', ''true'', ''false''] then Inl InvalidXmlError
      else Inr (PyBool (s \<in> set [''1'', ''true''])))"
| "convert_from_xml XsdId s = Inr (PyStr s)"
| "convert_from_xml XsdInt s = int_from_xml s"
| "convert_from_xml XsdLong s = int_from_xml s"
| "convert_from_xml XsdString s = Inr (PyStr s)"
| "convert_from_xml XsdStringEnumeration s = Inr (PyStr s)"
| "convert_from_xml XsdToken s = Inr (PyStr s)"
| "convert_from_xml XsdUnsignedInt s = int_from_xml s"
| "convert_from_xml XsdUnsignedLong s = int_from_xml s"
| "convert_from_xml ST_BrClear s = Inr (PyStr s)"
| "convert_from_xml ST_BrType s = Inr (PyStr s)"
| "convert_from_xml ST_Coordinate s =
     (if char_in CHR ''i'' s \<or> char_in CHR ''m'' s \<or> char_in CHR ''p'' s
      then universal_measure s
      else int_from_xml s)"
| "convert_from_xml ST_CoordinateUnqualified s = int_from_xml s"
| "convert_from_xml ST_DecimalNumber s = int_from_xml s"
| "convert_from_xml ST_DrawingElementId s = int_from_xml s"
| "convert_from_xml ST_HexColor s =
     (if s = ''auto'' then Inr (PyStr ''auto'') else RGBColor_from_string s)"
| "convert_from_xml ST_HexColorAuto s = Inr (PyStr s)"
| "convert_from_xml ST_HpsMeasure s =
     (if char_in CHR ''m'' s \<or> char_in CHR ''n'' s \<or> char_in CHR ''p'' s
      then universal_measure s
      else seq (py_int s) (\<lambda>n. seq (float_of_int n) (\<lambda>x.
           seq (Pt_float (float_over x 2)) (\<lambda>emu. Inr (PyInt emu)))))"
| "convert_from_xml ST_PtsMeasure s =
     (if char_in CHR ''m'' s \<or> char_in CHR ''n'' s \<or> char_in CHR ''p'' s
      then universal_measure s
      else seq (py_int s) (\<lambda>n. Inr (PyInt (Pt n))))"
| "convert_from_xml ST_Merge s = Inr (PyStr s)"
| "convert_from_xml ST_OnOff s =
     (if s \<notin> set [''1'', ''0'', ''true'', ''false'', ''on'', ''off''] then Inl InvalidXmlError
      else Inr (PyBool (s \<in> set [''1'', ''true'', ''on''])))"
| "convert_from_xml ST_PositiveCoordinate s = int_from_xml s"
| "convert_from_xml ST_RelationshipId s = Inr (PyStr s)"
| "convert_from_xml ST_SignedTwipsMeasure s =
     (if char_in CHR ''i'' s \<or> char_in CHR ''m'' s \<or> char_in CHR ''p'' s
      then universal_measure s
      else seq (py_int s) (\<lambda>n. Inr (PyInt (Twips n))))"
| "convert_from_xml ST_String s = Inr (PyStr s)"
| "convert_from_xml ST_TblLayoutType s = Inr (PyStr s)"
| "convert_from_xml ST_TblWidth s = Inr (PyStr s)"
| "convert_from_xml ST_TwipsMeasure s =
     (if char_in CHR ''i'' s \<or> char_in CHR ''m'' s \<or> char_in CHR ''p'' s
      then universal_measure s
      else seq (py_int s) (\<lambda>n. Inr (PyInt (Twips n))))"
| "convert_from_xml ST_EighthsOfPointMeasure s =
     (if char_in CHR ''i'' s \<or> char_in CHR ''m'' s \<or> char_in CHR ''p'' s
      then universal_measure s
      else seq (py_int s) (\<lambda>n. seq (EighthsOfPoint n) (\<lambda>emu. Inr (PyInt emu))))"
| "convert_from_xml ST_UniversalMeasure s = universal_measure s"
| "convert_from_xml ST_VerticalAlignRun s = Inr (PyStr s)"
| "convert_from_xml ST_BorderValue s = Inr (PyStr s)"

subsection \<open>\<open>convert_to_xml\<close>\<close>

text \<open>
  \<open>str(value)\<close>. Modelled from the spec for an \<open>RGBColor\<close>, whose class is not among
  the sources: "colors render as six uppercase hex digits".
\<close>

fun py_str :: "pyval \<Rightarrow> string" where
  "py_str PyNone = ''None''"
| "py_str (PyBool b) = (if b then ''True'' else ''False'')"
| "py_str (PyInt n) = str_of_int n"
| "py_str (PyFloat x) = float_repr x"
| "py_str PyNegZero = ''-0.0''"
| "py_str (PyStr s) = s"
| "py_str (PyRGBColor r g b) = fmt_02X r @ fmt_02X g @ fmt_02X b"

text \<open>\<open>XsdBoolean.convert_to_xml\<close>: the entry of \<open>{True: '1', False: '0'}\<close> at the value.\<close>

definition bool_to_xml :: "pyval \<Rightarrow> pyerr + pyval" where
  "bool_to_xml v =
     (if py_eq (PyBool True) v then Inr (PyStr ''1'')
      else if py_eq (PyBool False) v then Inr (PyStr ''0'')
      else Inl KeyError)"

text \<open>The measures' \<open>convert_to_xml\<close>: the length in the type's own unit, as text.\<close>

definition hps_to_xml :: "pyval \<Rightarrow> pyerr + pyval" where
  "hps_to_xml v =
     seq (Emu v) (\<lambda>emu. seq (Length_pt emu) (\<lambda>pt.
     seq (int_of_float (float_times pt 2)) (\<lambda>half_points.
     Inr (PyStr (str_of_int half_points)))))"

definition pts_to_xml :: "pyval \<Rightarrow> pyerr + pyval" where
  "pts_to_xml v =
     seq (Emu v) (\<lambda>emu. seq (Length_pt emu) (\<lambda>pt.
     seq (int_of_float pt) (\<lambda>points. Inr (PyStr (str_of_int points)))))"

definition twips_to_xml :: "pyval \<Rightarrow> pyerr + pyval" where
  "twips_to_xml v =
     seq (Emu v) (\<lambda>emu. seq (Length_twips emu) (\<lambda>twips. Inr (PyStr (str_of_int twips))))"

definition eop_to_xml :: "pyval \<Rightarrow> pyerr + pyval" where
  "eop_to_xml v =
     seq (Emu v) (\<lambda>emu. seq (Length_eighths_of_point emu) (\<lambda>eop.
     Inr (PyStr (str_of_int eop))))"

text \<open>
  Each class with the \<open>convert_to_xml\<close> its method resolution finds (\<open>BaseSimpleType\<close>
  and \<open>ST_UniversalMeasure\<close> have none). \<open>'%02X%02X%02X' % value\<close> is a \<open>TypeError\<close>
  for a value that is not a tuple.
\<close>

fun convert_to_xml :: "simpletype \<Rightarrow> pyval \<Rightarrow> pyerr + pyval" where
  "convert_to_xml BaseSimpleType v = Inl AttributeError"
| "convert_to_xml BaseIntType v = Inr (PyStr (py_str v))"
| "convert_to_xml BaseStringType v = Inr v"
| "convert_to_xml BaseStringEnumerationType v = Inr v"
| "convert_to_xml XsdAnyUri v = Inr v"
| "convert_to_xml XsdBoolean v = bool_to_xml v"
| "convert_to_xml XsdId v = Inr v"
| "convert_to_xml XsdInt v = Inr (PyStr (py_str v))"
| "convert_to_xml XsdLong v = Inr (PyStr (py_str v))"
| "convert_to_xml XsdString v = Inr v"
| "convert_to_xml XsdStringEnumeration v = Inr v"
| "convert_to_xml XsdToken v = Inr v"
| "convert_to_xml XsdUnsignedInt v = Inr (PyStr (py_str v))"
| "convert_to_xml XsdUnsignedLong v = Inr (PyStr (py_str v))"
| "convert_to_xml ST_BrClear v = Inr v"
| "convert_to_xml ST_BrType v = Inr v"
| "convert_to_xml ST_Coordinate v = Inr (PyStr (py_str v))"
| "convert_to_xml ST_CoordinateUnqualified v = Inr (PyStr (py_str v))"
| "convert_to_xml ST_DecimalNumber v = Inr (PyStr (py_str v))"
| "convert_to_xml ST_DrawingElementId v = Inr (PyStr (py_str v))"
| "convert_to_xml ST_HexColor v =
     (case v of
        PyRGBColor r g b \<Rightarrow> Inr (PyStr (fmt_02X r @ fmt_02X g @ fmt_02X b))
      | _ \<Rightarrow> Inl TypeError)"
| "convert_to_xml ST_HexColorAuto v = Inr v"
| "convert_to_xml ST_HpsMeasure v = hps_to_xml v"
| "convert_to_xml ST_PtsMeasure v = pts_to_xml v"
| "convert_to_xml ST_Merge v = Inr v"
| "convert_to_xml ST_OnOff v = bool_to_xml v"
| "convert_to_xml ST_PositiveCoordinate v = Inr (PyStr (py_str v))"
| "convert_to_xml ST_RelationshipId v = Inr v"
| "convert_to_xml ST_SignedTwipsMeasure v = twips_to_xml v"
| "convert_to_xml ST_String v = Inr v"
| "convert_to_xml ST_TblLayoutType v = Inr v"
| "convert_to_xml ST_TblWidth v = Inr v"
| "convert_to_xml ST_TwipsMeasure v = twips_to_xml v"
| "convert_to_xml ST_EighthsOfPointMeasure v = eop_to_xml v"
| "convert_to_xml ST_UniversalMeasure v = Inl AttributeError"
| "convert_to_xml ST_VerticalAlignRun v = Inr v"
| "convert_to_xml ST_BorderValue v = Inr v"

subsection \<open>\<open>from_xml\<close> and \<open>to_xml\<close>\<close>

definition from_xml :: "simpletype \<Rightarrow> string \<Rightarrow> pyerr + pyval" where
  "from_xml cls str_value = convert_from_xml cls str_value"

definition to_xml :: "simpletype \<Rightarrow> pyval \<Rightarrow> pyerr + pyval" where
  "to_xml cls v = seq (validate cls v) (\<lambda>_. convert_to_xml cls v)"

section \<open>The spec's notions\<close>



section \<open>The element tree and the bindings of \<^verbatim>\<open>docx/oxml/xmlchemy.py\<close>\<close>

text \<open>
  Modelled from the spec: the tree is an external collaborator, "a mutable node in an
  ordered tree with a qualified tag, a mapping from qualified attribute name to raw
  text (keys unique), and an ordered sequence of child nodes". Tags and attribute names
  are kept in their prefixed form (\<open>w:val\<close>); their resolution to the canonical form is
  the collaborator's.
\<close>

datatype element =
  Element (tag: string) (attrib: "(string \<times> string) list") (children: "element list")

text \<open>
  Modelled from the spec: the operations of the collaborator, \<open>get_attribute\<close>,
  \<open>set_attribute\<close>, \<open>remove_attribute\<close>, \<open>find_child\<close> and \<open>insert_child\<close>, the last
  "at the position immediately before the first existing sibling whose tag is later
  in the declared canonical ordering (append at end if none are later)".
\<close>

definition get_attribute :: "element \<Rightarrow> string \<Rightarrow> string option" where
  "get_attribute e name = map_of (attrib e) name"

definition set_attribute :: "element \<Rightarrow> string \<Rightarrow> string \<Rightarrow> element" where
  "set_attribute e name txt = Element (tag e) (AList.update name txt (attrib e)) (children e)"

definition remove_attribute :: "element \<Rightarrow> string \<Rightarrow> element" where
  "remove_attribute e name = Element (tag e) (AList.delete name (attrib e)) (children e)"

definition find_child :: "element \<Rightarrow> string \<Rightarrow> element option" where
  "find_child e t = find (\<lambda>c. tag c = t) (children e)"

definition insert_child :: "element \<Rightarrow> element \<Rightarrow> string list \<Rightarrow> element" where
  "insert_child e new_child successors =
     Element (tag e) (attrib e)
       (takeWhile (\<lambda>c. tag c \<notin> set successors) (children e)
        @ new_child # dropWhile (\<lambda>c. tag c \<notin> set successors) (children e))"

text \<open>
  A child is a node of the one shared tree: what is done to the child found under a tag
  is done in place, in the parent's list of children.
\<close>

fun update_first :: "('a \<Rightarrow> bool) \<Rightarrow> ('a \<Rightarrow> 'a) \<Rightarrow> 'a list \<Rightarrow> 'a list" where
  "update_first P f [] = []"
| "update_first P f (x # xs) = (if P x then f x # xs else x # update_first P f xs)"

definition with_child :: "string \<Rightarrow> (element \<Rightarrow> element) \<Rightarrow> element \<Rightarrow> element" where
  "with_child t f e =
     Element (tag e) (attrib e) (update_first (\<lambda>c. tag c = t) f (children e))"

text \<open>
  Modelled from the spec: the child-presence binding \<open>ZeroOrOne\<close>. Its getter is
  \<open>find_child\<close>, "a lookup that returns the unique existing child of that tag or absent
  -- never creates"; its \<open>get_or_add\<close> is "a get-or-create that, if absent, inserts a
  new empty child node" before the declared successors.
\<close>

definition get_or_add :: "string \<Rightarrow> string list \<Rightarrow> element \<Rightarrow> element" where
  "get_or_add t successors e =
     (case find_child e t of
        Some c \<Rightarrow> e
      | None \<Rightarrow> insert_child e (Element t [] []) successors)"

text \<open>
  Modelled from the spec: the attribute bindings. Read: "look up the attribute by
  qualified name; if absent and required, fail with \<open>MissingRequiredAttributeError\<close>;
  if absent and optional, return absent; else delegate to the descriptor's parse".
  Write: "delegate to descriptor's validate+render, then set the qualified attribute
  to the resulting text"; for an optional attribute "absence on write is achieved by
  attribute removal". A rendered value that is not text cannot be stored: \<open>TypeError\<close>.
\<close>

datatype attribute =
    RequiredAttribute string simpletype
  | OptionalAttribute string simpletype



definition store_text :: "element \<Rightarrow> string \<Rightarrow> pyval \<Rightarrow> pyerr + element" where
  "store_text e name x =
     (case x of
        PyStr txt \<Rightarrow> Inr (set_attribute e name txt)
      | PyNone \<Rightarrow> Inl TypeError
      | PyBool b \<Rightarrow> Inl TypeError
      | PyInt n \<Rightarrow> Inl TypeError
      | PyFloat y \<Rightarrow> Inl TypeError
      | PyNegZero \<Rightarrow> Inl TypeError
      | PyRGBColor r g b \<Rightarrow> Inl TypeError)"

fun attribute_get :: "attribute \<Rightarrow> element \<Rightarrow> pyerr + pyval" where
  "attribute_get (RequiredAttribute name st) e =
     (case get_attribute e name of
        None \<Rightarrow> Inl MissingRequiredAttributeError
      | Some txt \<Rightarrow> from_xml st txt)"
| "attribute_get (OptionalAttribute name st) e =
     (case get_attribute e name of
        None \<Rightarrow> Inr PyNone
      | Some txt \<Rightarrow> from_xml st txt)"

fun attribute_set :: "attribute \<Rightarrow> pyval \<Rightarrow> element \<Rightarrow> pyerr + element" where
  "attribute_set (RequiredAttribute name st) v e = seq (to_xml st v) (store_text e name)"
| "attribute_set (OptionalAttribute name st) v e =
     (if v = PyNone then Inr (remove_attribute e name)
      else seq (to_xml st v) (store_text e name))"

section \<open>The border elements of \<^verbatim>\<open>docx/oxml/text/border.py\<close>\<close>

text \<open>The five attributes \<open>CT_BorderSide\<close> declares.\<close>

datatype border_attr = Val | Sz | Space | Color | Shadow

fun CT_BorderSide :: "border_attr \<Rightarrow> attribute" where
  "CT_BorderSide Val = RequiredAttribute ''w:val'' ST_BorderValue"
| "CT_BorderSide Sz = RequiredAttribute ''w:sz'' ST_EighthsOfPointMeasure"
| "CT_BorderSide Space = RequiredAttribute ''w:space'' ST_PtsMeasure"
| "CT_BorderSide Color = RequiredAttribute ''w:color'' ST_HexColor"
| "CT_BorderSide Shadow = OptionalAttribute ''w:shadow'' XsdBoolean"

text \<open>
  The four children \<open>CT_PBdr\<close> declares, each a \<open>ZeroOrOne\<close> whose successors are the
  tags after its own in \<open>_tag_seq\<close>.
\<close>

datatype side = Top | Left | Bottom | Right

definition tag_seq :: "string list" where
  "tag_seq = [''w:top'', ''w:left'', ''w:bottom'', ''w:right'']"

fun side_tag :: "side \<Rightarrow> string" where
  "side_tag Top = ''w:top''"
| "side_tag Left = ''w:left''"
| "side_tag Bottom = ''w:bottom''"
| "side_tag Right = ''w:right''"

fun side_successors :: "side \<Rightarrow> string list" where
  "side_successors Top = drop 1 tag_seq"
| "side_successors Left = drop 2 tag_seq"
| "side_successors Bottom = drop 3 tag_seq"
| "side_successors Right = drop 4 tag_seq"

text \<open>
  The classes of the paragraph and of its properties, which declare \<open>pPr\<close> and \<open>pBdr\<close>,
  are not among the sources: the tags that follow \<open>w:pPr\<close> in a paragraph and \<open>w:pBdr\<close>
  in the paragraph properties are parameters of the model.
\<close>

record parfmt =
  pPr_successors :: "string list"
  pBdr_successors :: "string list"

section \<open>The facades of \<^verbatim>\<open>docx/text/border.py\<close>\<close>

text \<open>
  A facade holds a reference to its paragraph element; the elements live in a store,
  by address, so that two facades over one paragraph see each other's writes.
\<close>

type_synonym store = "nat \<Rightarrow> element"

datatype BorderSide = BorderSide (element_of: nat) (side_of: side)

text \<open>\<open>BorderSide._get_side_element\<close>, on the paragraph element.\<close>

definition get_side_element :: "element \<Rightarrow> side \<Rightarrow> element option" where
  "get_side_element p s =
     (case find_child p ''w:pPr'' of
        None \<Rightarrow> None
      | Some pPr \<Rightarrow>
          (case find_child pPr ''w:pBdr'' of
             None \<Rightarrow> None
           | Some pBdr \<Rightarrow> find_child pBdr (side_tag s)))"

text \<open>
  \<open>BorderSide._get_or_add_side_element\<close>: \<open>get_or_add_pPr\<close> on the paragraph, then
  \<open>get_or_add_pBdr\<close> on its \<open>pPr\<close>, then the side's \<open>get_or_add\<close> on that \<open>pBdr\<close>. The
  result is the paragraph as it is left; the side element is then found in it.
\<close>

definition get_or_add_side_element :: "parfmt \<Rightarrow> side \<Rightarrow> element \<Rightarrow> element" where
  "get_or_add_side_element fmt s p =
     (let p1 = get_or_add ''w:pPr'' (pPr_successors fmt) p;
          p2 = with_child ''w:pPr'' (get_or_add ''w:pBdr'' (pBdr_successors fmt)) p1
      in with_child ''w:pPr''
           (with_child ''w:pBdr'' (get_or_add (side_tag s) (side_successors s))) p2)"

definition with_side :: "side \<Rightarrow> (element \<Rightarrow> element) \<Rightarrow> element \<Rightarrow> element" where
  "with_side s f p = with_child ''w:pPr'' (with_child ''w:pBdr'' (with_child (side_tag s) f)) p"

text \<open>
  The getters \<open>val\<close>, \<open>sz\<close>, \<open>space\<close>, \<open>color\<close> and \<open>shadow\<close> of \<open>BorderSide\<close> are one body,
  with the attribute as the only difference: \<open>None\<close> when the side element is absent,
  the attribute's value otherwise. The store is returned as it was found.
\<close>

definition BorderSide_get :: "border_attr \<Rightarrow> BorderSide \<Rightarrow> store \<Rightarrow> (pyerr + pyval) \<times> store" where
  "BorderSide_get pr bs \<sigma> =
     (case get_side_element (\<sigma> (element_of bs)) (side_of bs) of
        None \<Rightarrow> (Inr PyNone, \<sigma>)
      | Some e \<Rightarrow> (attribute_get (CT_BorderSide pr) e, \<sigma>))"

text \<open>
  The setters likewise: the side element is got or added, then the attribute is
  assigned on it. When the assignment raises, what \<open>_get_or_add_side_element\<close> created
  stays in the tree. (Assigning on \<open>None\<close> would be an \<open>AttributeError\<close>; the side
  element is there after \<open>get_or_add\<close>.)
\<close>

definition BorderSide_set ::
    "parfmt \<Rightarrow> border_attr \<Rightarrow> BorderSide \<Rightarrow> pyval \<Rightarrow> store \<Rightarrow> (pyerr + unit) \<times> store" where
  "BorderSide_set fmt pr bs v \<sigma> =
     (let a = element_of bs; s = side_of bs;
          p = get_or_add_side_element fmt s (\<sigma> a)
      in case get_side_element p s of
           None \<Rightarrow> (Inl AttributeError, \<sigma>(a := p))
         | Some e \<Rightarrow>
             (case attribute_set (CT_BorderSide pr) v e of
                Inl err \<Rightarrow> (Inl err, \<sigma>(a := p))
              | Inr e' \<Rightarrow> (Inr (), \<sigma>(a := with_side s (\<lambda>_. e') p))))"

text \<open>
  \<open>ParagraphBorder\<close>: the paragraph element and the four slots \<open>_top\<close>, \<open>_left\<close>,
  \<open>_bottom\<close>, \<open>_right\<close>; a slot that was never assigned is \<open>None\<close> here and an
  \<open>AttributeError\<close> in the source.
\<close>

record ParagraphBorder =
  pb_element :: nat
  pb_top :: "BorderSide option"
  pb_left :: "BorderSide option"
  pb_bottom :: "BorderSide option"
  pb_right :: "BorderSide option"

fun slot :: "side \<Rightarrow> ParagraphBorder \<Rightarrow> BorderSide option" where
  "slot Top pb = pb_top pb"
| "slot Left pb = pb_left pb"
| "slot Bottom pb = pb_bottom pb"
| "slot Right pb = pb_right pb"

fun set_slot :: "side \<Rightarrow> BorderSide \<Rightarrow> ParagraphBorder \<Rightarrow> ParagraphBorder" where
  "set_slot Top bs pb = pb\<lparr>pb_top := Some bs\<rparr>"
| "set_slot Left bs pb = pb\<lparr>pb_left := Some bs\<rparr>"
| "set_slot Bottom bs pb = pb\<lparr>pb_bottom := Some bs\<rparr>"
| "set_slot Right bs pb = pb\<lparr>pb_right := Some bs\<rparr>"

text \<open>
  The property getters \<open>top\<close>, \<open>left\<close>, \<open>bottom\<close> and \<open>right\<close> are one body: the slot
  when it is assigned; otherwise \<open>None\<close> when \<open>pPr\<close>, \<open>pBdr\<close> or the side is absent, and
  else a new \<open>BorderSide\<close>, which is kept in the slot.
\<close>

definition side_getter ::
    "side \<Rightarrow> ParagraphBorder \<Rightarrow> store \<Rightarrow> BorderSide option \<times> ParagraphBorder" where
  "side_getter s pb \<sigma> =
     (case slot s pb of
        Some bs \<Rightarrow> (Some bs, pb)
      | None \<Rightarrow>
          (case get_side_element (\<sigma> (pb_element pb)) s of
             None \<Rightarrow> (None, pb)
           | Some e \<Rightarrow>
               (Some (BorderSide (pb_element pb) s),
                set_slot s (BorderSide (pb_element pb) s) pb)))"

text \<open>
  The five assignments of a setter, \<open>target.val = side.val\<close> to
  \<open>target.shadow = side.shadow\<close>: each reads the source, then writes the target; the
  first exception ends the setter.
\<close>

fun copy_fields ::
    "parfmt \<Rightarrow> border_attr list \<Rightarrow> BorderSide \<Rightarrow> BorderSide \<Rightarrow> store \<Rightarrow> (pyerr + unit) \<times> store" where
  "copy_fields fmt [] target source \<sigma> = (Inr (), \<sigma>)"
| "copy_fields fmt (pr # prs) target source \<sigma> =
     (case BorderSide_get pr source \<sigma> of
        (Inl err, \<sigma>1) \<Rightarrow> (Inl err, \<sigma>1)
      | (Inr v, \<sigma>1) \<Rightarrow>
          (case BorderSide_set fmt pr target v \<sigma>1 of
             (Inl err, \<sigma>2) \<Rightarrow> (Inl err, \<sigma>2)
           | (Inr u, \<sigma>2) \<Rightarrow> copy_fields fmt prs target source \<sigma>2))"

definition all_fields :: "border_attr list" where
  "all_fields = [Val, Sz, Space, Color, Shadow]"

text \<open>
  The setters of \<open>top\<close> and \<open>bottom\<close>: when the getter gives \<open>None\<close> the slot is
  assigned; then, in every case, the five fields are copied to the side in the slot.
\<close>

definition setter_top_bottom ::
    "parfmt \<Rightarrow> side \<Rightarrow> ParagraphBorder \<Rightarrow> BorderSide \<Rightarrow> store
      \<Rightarrow> (pyerr + unit) \<times> ParagraphBorder \<times> store" where
  "setter_top_bottom fmt s pb source \<sigma> =
     (let (r, pb1) = side_getter s pb \<sigma>;
          pb2 = (if r = None then set_slot s (BorderSide (pb_element pb1) s) pb1 else pb1)
      in case side_getter s pb2 \<sigma> of
           (None, pb3) \<Rightarrow> (Inl AttributeError, pb3, \<sigma>)
         | (Some target, pb3) \<Rightarrow>
             (case copy_fields fmt all_fields target source \<sigma> of
                (res, \<sigma>') \<Rightarrow> (res, pb3, \<sigma>')))"

text \<open>
  The setters of \<open>left\<close> and \<open>right\<close>: the five assignments stand inside the
  \<open>if self.left is None:\<close> block, so they run only when the getter gave \<open>None\<close>.
\<close>

definition setter_left_right ::
    "parfmt \<Rightarrow> side \<Rightarrow> ParagraphBorder \<Rightarrow> BorderSide \<Rightarrow> store
      \<Rightarrow> (pyerr + unit) \<times> ParagraphBorder \<times> store" where
  "setter_left_right fmt s pb source \<sigma> =
     (let (r, pb1) = side_getter s pb \<sigma>
      in if r = None
         then (let pb2 = set_slot s (BorderSide (pb_element pb1) s) pb1
               in case side_getter s pb2 \<sigma> of
                    (None, pb3) \<Rightarrow> (Inl AttributeError, pb3, \<sigma>)
                  | (Some target, pb3) \<Rightarrow>
                      (case copy_fields fmt all_fields target source \<sigma> of
                         (res, \<sigma>') \<Rightarrow> (res, pb3, \<sigma>')))
         else (Inr (), pb1, \<sigma>))"

text \<open>The four property setters of \<open>ParagraphBorder\<close>.\<close>

fun ParagraphBorder_set ::
    "parfmt \<Rightarrow> side \<Rightarrow> ParagraphBorder \<Rightarrow> BorderSide \<Rightarrow> store
      \<Rightarrow> (pyerr + unit) \<times> ParagraphBorder \<times> store" where
  "ParagraphBorder_set fmt Top pb source \<sigma> = setter_top_bottom fmt Top pb source \<sigma>"
| "ParagraphBorder_set fmt Left pb source \<sigma> = setter_left_right fmt Left pb source \<sigma>"
| "ParagraphBorder_set fmt Bottom pb source \<sigma> = setter_top_bottom fmt Bottom pb source \<sigma>"
| "ParagraphBorder_set fmt Right pb source \<sigma> = setter_left_right fmt Right pb source \<sigma>"

section \<open>Example documents\<close>

text \<open>
  Two paragraphs: one whose border has a top side, dashed, 8 eighths of a point wide;
  one whose border has a left side, single, 4 eighths of a point wide. And a paragraph
  with a run and no properties.
\<close>

definition dashed_top_paragraph :: element where
  "dashed_top_paragraph =
     Element ''w:p'' []
       [Element ''w:pPr'' []
          [Element ''w:pBdr'' []
             [Element ''w:top''
                [(''w:val'', ''dashed''), (''w:sz'', ''8''), (''w:space'', ''2''),
                 (''w:color'', ''00FF00'')] []]]]"

definition single_left_paragraph :: element where
  "single_left_paragraph =
     Element ''w:p'' []
       [Element ''w:pPr'' []
          [Element ''w:pBdr'' []
             [Element ''w:left''
                [(''w:val'', ''single''), (''w:sz'', ''4''), (''w:space'', ''1''),
                 (''w:color'', ''FF0000'')] []]]]"


text \<open>
  A store with the dashed paragraph at address 0 and the other one everywhere else,
  and a facade over address 1 none of whose slots is assigned.
\<close>

definition two_paragraphs :: "element \<Rightarrow> store" where
  "two_paragraphs p = (\<lambda>a. if a = 0 then dashed_top_paragraph else p)"

definition new_border :: ParagraphBorder where
  "new_border =
     \<lparr>pb_element = 1, pb_top = None, pb_left = None, pb_bottom = None, pb_right = None\<rparr>"

definition example_fmt :: parfmt where
  "example_fmt = \<lparr>pPr_successors = [''w:r''], pBdr_successors = [''w:shd'']\<rparr>"

section \<open>Facts about the builtins\<close>

subsection \<open>Rounding to binary64\<close>

lemma quotient_of_pos:
  assumes "0 < x" shows "0 < fst (quotient_of x) \<and> 0 < snd (quotient_of x) \<and> x = of_int (fst (quotient_of x)) / of_int (snd (quotient_of x))"
proof -
  obtain p q where pq: "quotient_of x = (p, q)" by (cases "quotient_of x")
  then have q: "0 < q" by (rule quotient_of_denom_pos)
  from pq have x: "x = of_int p / of_int q" by (rule quotient_of_div)
  with assms q have "0 < p" by (simp add: zero_less_divide_iff)
  with q x pq show ?thesis by simp
qed

lemma bitlen_powi_bounds:
  assumes "0 < p"
  shows "(2::rat) powi (bitlen p - 1) \<le> of_int p \<and> of_int p < (2::rat) powi bitlen p"
proof -
  from assms have b: "2 ^ nat (bitlen p - 1) \<le> p \<and> p < 2 ^ nat (bitlen p)"
    by (rule bitlen_bounds)
  from assms have ge1: "1 \<le> bitlen p" by (auto simp: bitlen_alt_def)
  have "(2::rat) powi (bitlen p - 1) = of_int (2 ^ nat (bitlen p - 1))"
    using ge1 by (simp add: power_int_nonneg_exp)
  moreover have "(2::rat) powi bitlen p = of_int (2 ^ nat (bitlen p))"
    using ge1 by (simp add: power_int_nonneg_exp)
  ultimately show ?thesis using b by (simp only: of_int_le_iff of_int_less_iff)
qed

lemma floor_log2_bounds:
  assumes "0 < x"
  shows "2 powi floor_log2 x \<le> x \<and> x < 2 powi (floor_log2 x + 1)"
proof -
  define p where "p = fst (quotient_of x)"
  define q where "q = snd (quotient_of x)"
  from quotient_of_pos [OF assms] have p: "0 < p" and q: "0 < q" and x: "x = of_int p / of_int q"
    by (simp_all add: p_def q_def)
  define e0 where "e0 = bitlen p - bitlen q"
  note bp = bitlen_powi_bounds [OF p] and bq = bitlen_powi_bounds [OF q]
  have qpos: "(0::rat) < of_int q" using q by simp
  have up: "x < 2 powi (e0 + 1)"
  proof -
    have "of_int p < (2::rat) powi bitlen p" using bp by simp
    also have "\<dots> = 2 powi (e0 + 1) * 2 powi (bitlen q - 1)"
      by (simp add: e0_def flip: power_int_add)
    also have "\<dots> \<le> 2 powi (e0 + 1) * of_int q"
      using bq by (intro mult_left_mono) simp_all
    finally show ?thesis using qpos by (simp add: x pos_divide_less_eq)
  qed
  have lo: "2 powi (e0 - 1) < x"
  proof -
    have "2 powi (e0 - 1) * of_int q < 2 powi (e0 - 1) * (2::rat) powi bitlen q"
      using bq by (intro mult_strict_left_mono) simp_all
    also have "\<dots> = 2 powi (bitlen p - 1)"
      by (simp add: e0_def flip: power_int_add)
    also have "\<dots> \<le> of_int p" using bp by simp
    finally show ?thesis using qpos by (simp add: x pos_less_divide_eq)
  qed
  show ?thesis
  proof (cases "2 powi e0 \<le> x")
    case True
    then have "floor_log2 x = e0" by (simp add: floor_log2_def e0_def p_def q_def)
    with True up show ?thesis by simp
  next
    case False
    then have "floor_log2 x = e0 - 1" by (simp add: floor_log2_def e0_def p_def q_def)
    with False lo show ?thesis by simp
  qed
qed


lemma round_half_even_of_int: "round_half_even (of_int k) = k"
  by (simp add: round_half_even_def)

lemma fl64_representable:
  assumes m: "\<bar>m\<bar> < 2 ^ 53" and j: "- 1074 \<le> j" "j \<le> 971"
  shows "fl64 (of_int m * 2 powi j) = Finite (of_int m * 2 powi j)"
proof (cases "m = 0")
  case True
  then show ?thesis by (simp add: fl64_def)
next
  case False
  define x :: rat where "x = of_int m * 2 powi j"
  define a :: rat where "a = \<bar>x\<bar>"
  have a: "a = of_int \<bar>m\<bar> * 2 powi j" by (simp add: a_def x_def abs_mult)
  have apos: "0 < a" using False by (simp add: a)
  have xne: "x \<noteq> 0" using apos by (simp add: a_def)
  define E where "E = max (floor_log2 a) (- 1022)"
  have alt: "a < 2 powi (53 + j)"
  proof -
    have "(of_int \<bar>m\<bar> :: rat) < of_int (2 ^ 53)" using m by (simp only: of_int_less_iff)
    then have "a < 2 ^ 53 * 2 powi j" unfolding a by (intro mult_strict_right_mono) simp_all
    also have "\<dots> = 2 powi (53 + j)" by (simp add: power_int_add)
    finally show ?thesis .
  qed
  have "2 powi floor_log2 a < (2::rat) powi (53 + j)"
    using floor_log2_bounds [OF apos] alt by linarith
  then have "floor_log2 a < 53 + j"
    by (metis not_less one_le_numeral power_int_increasing)
  with j have Ej: "E - 52 \<le> j" by (simp add: E_def)
  define d where "d = nat (j - (E - 52))"
  have jd: "j = (E - 52) + int d" using Ej by (simp add: d_def)
  have quot: "a / 2 powi (E - 52) = of_int (\<bar>m\<bar> * 2 ^ d)"
    by (simp add: a jd power_int_add)
  have y: "of_int (round_half_even (a / 2 powi (E - 52))) * 2 powi (E - 52) = a"
    unfolding quot round_half_even_of_int by (simp add: a jd power_int_add)
  have "a < 2 powi 1024"
  proof -
    have "(2::rat) powi (53 + j) \<le> 2 powi 1024" using j by (intro power_int_increasing) simp_all
    with alt show ?thesis by linarith
  qed
  then have "\<not> 2 powi 1024 \<le> a" by simp
  then have "fl64 x = Finite (sgn x * a)"
    using xne y by (simp add: fl64_def Let_def a_def [symmetric] E_def [symmetric])
  also have "sgn x * a = x" by (simp add: a_def mult_sgn_abs)
  finally show ?thesis by (simp add: x_def)
qed

lemma fl64_of_int:
  assumes "\<bar>k\<bar> < 2 ^ 53"
  shows "fl64 (of_int k) = Finite (of_int k)"
  using fl64_representable [OF assms, of 0] by simp










subsection \<open>Decimal and hexadecimal digits\<close>

declare dec_digits.simps [simp del] hex_digits.simps [simp del]















subsection \<open>Evaluation and membership\<close>

lemma fl64_zero: "fl64 0 = Finite 0"
  by (simp add: fl64_def)

lemma fl64_numeral:
  "(numeral n :: int) < 2 ^ 53 \<Longrightarrow> fl64 (numeral n) = Finite (numeral n)"
  using fl64_of_int [of "numeral n"] by simp

lemma fl64_neg_numeral:
  "(numeral n :: int) < 2 ^ 53 \<Longrightarrow> fl64 (- numeral n) = Finite (- numeral n)"
  using fl64_of_int [of "- numeral n"] by simp

lemma fl64_one: "fl64 1 = Finite 1"
  using fl64_of_int [of 1] by simp

lemmas float_eval =
  seq_def Emu_def Length_pt_def float_of_int_def float_over_def float_times_def
  int_of_float_def py_round_def EMUS_PER_PT_def EMUS_PER_CM_def EMUS_PER_MM_def
  fl64_zero fl64_one fl64_numeral fl64_neg_numeral

lemmas str_eval = str_of_int_def digit_char_def dec_digits.simps

lemma py_in_strs: "py_in (PyStr s) (map PyStr ms) = (s \<in> set ms)"
  by (induction ms) (auto simp: py_in_def py_eq_def)

lemma validate_members_str:
  "validate_members ms (PyStr s) = (if s \<in> set ms then Inr () else Inl ValueError)"
  by (simp add: validate_members_def seq_def py_in_strs)

lemma py_in_bools:
  "py_in v [PyBool True, PyBool False] =
     (v \<in> {PyBool True, PyBool False, PyInt 1, PyInt 0, PyFloat (Finite 1), PyFloat (Finite 0),
            PyNegZero})"
  by (cases v) (auto simp: py_in_def py_eq_def)

lemma validate_int_in_range_int:
  "validate_int_in_range (PyInt n) lo hi = (if lo \<le> n \<and> n \<le> hi then Inr () else Inl ValueError)"
  by (auto simp: validate_int_in_range_def)

subsection \<open>The element tree\<close>





lemma get_or_add_present:
  "find_child e t = Some c \<Longrightarrow> get_or_add t succ e = e"
  by (simp add: get_or_add_def)



lemma insert_child_empty [simp]:
  "insert_child (Element t as []) new succ = Element t as [new]"
  by (simp add: insert_child_def)

lemma find_child_empty [simp]: "find_child (Element t as []) t' = None"
  by (simp add: find_child_def)

lemma find_child_single [simp]:
  "find_child (Element t as [c]) t' = (if tag c = t' then Some c else None)"
  by (simp add: find_child_def)

lemma with_child_single [simp]:
  "with_child t' f (Element t as [c]) = Element t as [if tag c = t' then f c else c]"
  by (simp add: with_child_def)


lemma side_tag_not_pPr [simp]: "side_tag s \<noteq> ''w:pPr''" "side_tag s \<noteq> ''w:pBdr''"
  by (cases s; simp)+





section \<open>The claims about the simple types\<close>

text \<open>
  C3, as the source has it: 914400 EMU, an inch, is 72 points, and
  \<open>ST_HpsMeasure.convert_to_xml\<close> renders it as \<open>"144"\<close> half-points.
\<close>

theorem C3_hps_render_inch:
  "convert_to_xml ST_HpsMeasure (PyInt 914400) = Inr (PyStr ''144'')"
  by (simp add: hps_to_xml_def float_eval str_eval)

text \<open>C3 as the spec states it, with the result \<open>"1440"\<close>, does not hold.\<close>

theorem C3_hps_render_inch_counterexample:
  "convert_to_xml ST_HpsMeasure (PyInt 914400) \<noteq> Inr (PyStr ''1440'')"
  by (simp add: hps_to_xml_def float_eval str_eval)

text \<open>
  C6: \<open>XsdBoolean.convert_from_xml\<close> succeeds on exactly \<open>"1"\<close>, \<open>"0"\<close>, \<open>"true"\<close> and
  \<open>"false"\<close>, with \<open>True\<close> for \<open>"1"\<close> and \<open>"true"\<close>, and raises \<open>InvalidXmlError\<close> on every
  other string; \<open>ST_OnOff\<close> accepts \<open>"on"\<close> and \<open>"off"\<close> as well; and for both,
  \<open>convert_to_xml\<close> of a value that \<open>validate\<close> accepts is \<open>"1"\<close> or \<open>"0"\<close>.
\<close>

theorem C6_boolean_parse_and_render:
  "convert_from_xml XsdBoolean s =
     (if s = ''1'' \<or> s = ''true'' then Inr (PyBool True)
      else if s = ''0'' \<or> s = ''false'' then Inr (PyBool False)
      else Inl InvalidXmlError)
   \<and> convert_from_xml ST_OnOff s =
     (if s = ''1'' \<or> s = ''true'' \<or> s = ''on'' then Inr (PyBool True)
      else if s = ''0'' \<or> s = ''false'' \<or> s = ''off'' then Inr (PyBool False)
      else Inl InvalidXmlError)
   \<and> (validate XsdBoolean v = Inr () \<longrightarrow>
        convert_to_xml XsdBoolean v = Inr (PyStr ''1'') \<or>
        convert_to_xml XsdBoolean v = Inr (PyStr ''0''))
   \<and> (validate ST_OnOff v = Inr () \<longrightarrow>
        convert_to_xml ST_OnOff v = Inr (PyStr ''1'') \<or>
        convert_to_xml ST_OnOff v = Inr (PyStr ''0''))"
proof -
  have render: "py_in v [PyBool True, PyBool False] \<Longrightarrow>
      bool_to_xml v = Inr (PyStr ''1'') \<or> bool_to_xml v = Inr (PyStr ''0'')"
    by (cases v) (auto simp: py_in_bools bool_to_xml_def py_eq_def)
  show ?thesis
    using render by (auto split: if_splits)
qed

theorem C6_boolean_parse_and_render_witness:
  "convert_from_xml XsdBoolean ''true'' = Inr (PyBool True)
   \<and> convert_from_xml XsdBoolean ''on'' = Inl InvalidXmlError
   \<and> convert_from_xml ST_OnOff ''on'' = Inr (PyBool True)
   \<and> convert_from_xml ST_OnOff ''0'' = Inr (PyBool False)
   \<and> validate XsdBoolean (PyBool True) = Inr ()
   \<and> convert_to_xml XsdBoolean (PyBool True) = Inr (PyStr ''1'')
   \<and> validate ST_OnOff (PyBool False) = Inr ()
   \<and> convert_to_xml ST_OnOff (PyBool False) = Inr (PyStr ''0'')"
  using C6_boolean_parse_and_render [of "''true''" "PyBool True"]
    C6_boolean_parse_and_render [of "''on''" "PyBool False"]
    C6_boolean_parse_and_render [of "''0''" "PyBool False"]
  by (simp add: py_in_bools bool_to_xml_def py_eq_def)

text \<open>
  C7: each bounded integer type accepts its least and its greatest value and raises
  \<open>ValueError\<close> one below and one above them: \<open>XsdInt\<close>, \<open>XsdUnsignedInt\<close>,
  \<open>XsdUnsignedLong\<close>, \<open>ST_CoordinateUnqualified\<close> and, through it, \<open>ST_Coordinate\<close>.
\<close>

theorem C7_range_boundaries:
  "validate XsdInt (PyInt (- 2147483648)) = Inr ()
   \<and> validate XsdInt (PyInt 2147483647) = Inr ()
   \<and> validate XsdInt (PyInt (- 2147483649)) = Inl ValueError
   \<and> validate XsdInt (PyInt 2147483648) = Inl ValueError
   \<and> validate XsdUnsignedInt (PyInt 0) = Inr ()
   \<and> validate XsdUnsignedInt (PyInt 4294967295) = Inr ()
   \<and> validate XsdUnsignedInt (PyInt (- 1)) = Inl ValueError
   \<and> validate XsdUnsignedInt (PyInt 4294967296) = Inl ValueError
   \<and> validate XsdUnsignedLong (PyInt 0) = Inr ()
   \<and> validate XsdUnsignedLong (PyInt 18446744073709551615) = Inr ()
   \<and> validate XsdUnsignedLong (PyInt (- 1)) = Inl ValueError
   \<and> validate XsdUnsignedLong (PyInt 18446744073709551616) = Inl ValueError
   \<and> validate ST_CoordinateUnqualified (PyInt (- 27273042329600)) = Inr ()
   \<and> validate ST_CoordinateUnqualified (PyInt 27273042316900) = Inr ()
   \<and> validate ST_CoordinateUnqualified (PyInt (- 27273042329601)) = Inl ValueError
   \<and> validate ST_CoordinateUnqualified (PyInt 27273042316901) = Inl ValueError
   \<and> validate ST_Coordinate (PyInt (- 27273042329600)) = Inr ()
   \<and> validate ST_Coordinate (PyInt 27273042316900) = Inr ()
   \<and> validate ST_Coordinate (PyInt (- 27273042329601)) = Inl ValueError
   \<and> validate ST_Coordinate (PyInt 27273042316901) = Inl ValueError"
  by (simp add: validate_int_in_range_int)

text \<open>
  C8: \<open>ST_Merge\<close> parses \<open>"continue"\<close> to \<open>"continue"\<close>, which \<open>validate\<close> accepts; it
  parses \<open>"bogus"\<close> too, and \<open>validate\<close> rejects the result with \<open>ValueError\<close>. That is
  the one convention of every enumeration (the parse returns its text, \<open>validate\<close>
  tests it), and the test is membership in the exact set: \<open>"Continue"\<close> is no member.
\<close>

theorem C8_enumeration_membership:
  "from_xml ST_Merge ''continue'' = Inr (PyStr ''continue'')
   \<and> validate ST_Merge (PyStr ''continue'') = Inr ()
   \<and> from_xml ST_Merge ''bogus'' = Inr (PyStr ''bogus'')
   \<and> validate ST_Merge (PyStr ''bogus'') = Inl ValueError
   \<and> validate ST_Merge (PyStr ''Continue'') = Inl ValueError
   \<and> from_xml ST_Merge s = Inr (PyStr s)
   \<and> validate ST_Merge (PyStr s) =
       (if s = ''continue'' \<or> s = ''restart'' then Inr () else Inl ValueError)
   \<and> from_xml ST_HexColorAuto s = Inr (PyStr s)
   \<and> validate ST_HexColorAuto (PyStr s) =
       (if s \<in> set ST_HexColorAuto_members then Inr () else Inl ValueError)
   \<and> from_xml ST_VerticalAlignRun s = Inr (PyStr s)
   \<and> validate ST_VerticalAlignRun (PyStr s) =
       (if s \<in> set ST_VerticalAlignRun_members then Inr () else Inl ValueError)
   \<and> from_xml ST_BorderValue s = Inr (PyStr s)
   \<and> validate ST_BorderValue (PyStr s) =
       (if s \<in> set ST_BorderValue_members then Inr () else Inl ValueError)"
  by (simp add: from_xml_def validate_members_str ST_Merge_members_def)

theorem C8_enumeration_membership_witness:
  "from_xml ST_Merge ''restart'' = Inr (PyStr ''restart'')
   \<and> validate ST_Merge (PyStr ''restart'') = Inr ()
   \<and> validate ST_VerticalAlignRun (PyStr ''subscript'') = Inr ()
   \<and> validate ST_HexColorAuto (PyStr ''AUTO'') = Inl ValueError"
  using C8_enumeration_membership [of "''restart''"]
    C8_enumeration_membership [of "''subscript''"] C8_enumeration_membership [of "''AUTO''"]
  by (simp add: ST_VerticalAlignRun_members_def ST_HexColorAuto_members_def)

text \<open>
  C10, as the source has it: \<open>XsdBoolean.validate\<close> tests \<open>value not in (True, False)\<close>,
  which compares with \<open>==\<close>, so it accepts every value that is equal to \<open>True\<close> or to
  \<open>False\<close> and raises \<open>TypeError\<close> on every value that is equal to neither. The \<open>bool\<close>s
  pass; an \<open>int\<close> passes when it is 1 or 0, and a \<open>float\<close> when it is \<open>1.0\<close>, \<open>0.0\<close> or
  \<open>-0.0\<close>; every other number (\<open>nan\<close> and the infinities among them), every string,
  every colour and \<open>None\<close> are refused, and so \<open>to_xml\<close> rejects \<open>None\<close>.
\<close>

theorem C10_boolean_validate:
  "validate XsdBoolean v =
     (if py_eq (PyBool True) v \<or> py_eq (PyBool False) v then Inr () else Inl TypeError)
   \<and> validate XsdBoolean (PyBool b) = Inr ()
   \<and> validate XsdBoolean (PyInt i) = (if i = 1 \<or> i = 0 then Inr () else Inl TypeError)
   \<and> validate XsdBoolean (PyFloat x) =
       (if x = Finite 1 \<or> x = Finite 0 then Inr () else Inl TypeError)
   \<and> validate XsdBoolean PyNegZero = Inr ()
   \<and> validate XsdBoolean (PyStr s) = Inl TypeError
   \<and> validate XsdBoolean (PyRGBColor r g bl) = Inl TypeError
   \<and> validate XsdBoolean PyNone = Inl TypeError
   \<and> to_xml XsdBoolean PyNone = Inl TypeError"
proof -
  have "validate XsdBoolean v =
      (if py_eq (PyBool True) v \<or> py_eq (PyBool False) v then Inr () else Inl TypeError)"
    by (simp add: py_in_def)
  moreover have "validate XsdBoolean (PyBool b) = Inr ()"
    by (simp add: py_in_bools)
  moreover have "validate XsdBoolean (PyInt i) = (if i = 1 \<or> i = 0 then Inr () else Inl TypeError)"
    by (simp add: py_in_bools)
  moreover have "validate XsdBoolean (PyFloat x) =
      (if x = Finite 1 \<or> x = Finite 0 then Inr () else Inl TypeError)"
    by (simp add: py_in_bools)
  moreover have "validate XsdBoolean PyNegZero = Inr ()"
    by (simp add: py_in_bools)
  moreover have "validate XsdBoolean (PyStr s) = Inl TypeError"
    by (simp add: py_in_bools)
  moreover have "validate XsdBoolean (PyRGBColor r g bl) = Inl TypeError"
    by (simp add: py_in_bools)
  moreover have "validate XsdBoolean PyNone = Inl TypeError"
    by (simp add: py_in_bools)
  moreover have "to_xml XsdBoolean PyNone = Inl TypeError"
    by (simp add: py_in_bools to_xml_def seq_def)
  ultimately show ?thesis by blast
qed

theorem C10_boolean_validate_witness:
  "validate XsdBoolean (PyBool False) = Inr ()
   \<and> validate XsdBoolean (PyInt 1) = Inr ()
   \<and> validate XsdBoolean (PyInt 2) = Inl TypeError
   \<and> validate XsdBoolean (PyFloat (Finite 1)) = Inr ()
   \<and> validate XsdBoolean (PyFloat (Finite (1 / 2))) = Inl TypeError
   \<and> validate XsdBoolean (PyFloat NaN) = Inl TypeError
   \<and> validate XsdBoolean (PyStr ''true'') = Inl TypeError
   \<and> to_xml XsdBoolean PyNone = Inl TypeError"
  using C10_boolean_validate [of "PyBool False" False 1 "Finite 1" "''true''"]
    C10_boolean_validate [of "PyBool False" False 2 "Finite (1 / 2)" "''true''"]
    C10_boolean_validate [of "PyBool False" False 2 NaN "''true''"]
  by simp

text \<open>
  C10 as stated, that only \<open>True\<close> and \<open>False\<close> pass, fails at the integer \<open>1\<close>, which is
  rendered as \<open>"1"\<close>, and likewise at the integer \<open>0\<close> and at the floats \<open>1.0\<close>, \<open>0.0\<close> and
  \<open>-0.0\<close>.
\<close>

theorem C10_boolean_validate_counterexample:
  "validate XsdBoolean (PyInt 1) = Inr ()
   \<and> PyInt 1 \<noteq> PyBool True \<and> PyInt 1 \<noteq> PyBool False
   \<and> to_xml XsdBoolean (PyInt 1) = Inr (PyStr ''1'')
   \<and> to_xml XsdBoolean (PyInt 0) = Inr (PyStr ''0'')
   \<and> to_xml XsdBoolean (PyFloat (Finite 1)) = Inr (PyStr ''1'')
   \<and> to_xml XsdBoolean (PyFloat (Finite 0)) = Inr (PyStr ''0'')
   \<and> to_xml XsdBoolean PyNegZero = Inr (PyStr ''0'')"
  by (simp add: py_in_bools to_xml_def seq_def bool_to_xml_def py_eq_def)

section \<open>The claims about the border facades\<close>






lemma setter_left_right_present:
  assumes "fst (side_getter s pb \<sigma>) \<noteq> None"
  shows "setter_left_right fmt s pb source \<sigma> = (Inr (), snd (side_getter s pb \<sigma>), \<sigma>)"
  using assms by (auto simp: setter_left_right_def split_beta)

lemmas border_eval =
  BorderSide_get_def BorderSide_set_def get_side_element_def get_or_add_side_element_def
  get_or_add_def with_side_def with_child_def find_child_def insert_child_def
  get_attribute_def set_attribute_def remove_attribute_def store_text_def
  side_getter_def all_fields_def tag_seq_def

lemmas measure_eval =
  from_xml_def to_xml_def char_in_def py_int_def py_strip_def py_isspace_def
  split_sign_def is_digit_def nat_of_digits_def digit_val_def
  validate_int_in_range_def validate_members_str
  Pt_def EighthsOfPoint_def Length_eighths_of_point_def
  pts_to_xml_def eop_to_xml_def float_eval str_eval

text \<open>
  C4 fails for \<open>left\<close> (and \<open>right\<close>): the facade's paragraph has a left side, single and
  4 eighths of a point (6350 EMU) wide; assigning the dashed top side of the other
  paragraph, 8 eighths (12700 EMU) wide, to \<open>left\<close> leaves the store as it was, so the
  target keeps its own size.
\<close>

theorem C4_left_setter_keeps_existing_side:
  "ParagraphBorder_set example_fmt Left new_border (BorderSide 0 Top)
     (two_paragraphs single_left_paragraph)
   = (Inr (), new_border\<lparr>pb_left := Some (BorderSide 1 Left)\<rparr>,
      two_paragraphs single_left_paragraph)
   \<and> fst (BorderSide_get Sz (BorderSide 0 Top) (two_paragraphs single_left_paragraph))
       = Inr (PyInt 12700)
   \<and> fst (BorderSide_get Sz (BorderSide 1 Left) (two_paragraphs single_left_paragraph))
       = Inr (PyInt 6350)"
proof -
  have 1: "ParagraphBorder_set example_fmt Left new_border (BorderSide 0 Top)
      (two_paragraphs single_left_paragraph)
    = (Inr (), new_border\<lparr>pb_left := Some (BorderSide 1 Left)\<rparr>,
       two_paragraphs single_left_paragraph)"
    by (simp add: setter_left_right_def border_eval new_border_def two_paragraphs_def
        single_left_paragraph_def)
  have 2: "fst (BorderSide_get Sz (BorderSide 0 Top) (two_paragraphs single_left_paragraph))
      = Inr (PyInt 12700)"
    by (simp add: border_eval measure_eval two_paragraphs_def dashed_top_paragraph_def)
  have 3: "fst (BorderSide_get Sz (BorderSide 1 Left) (two_paragraphs single_left_paragraph))
      = Inr (PyInt 6350)"
    by (simp add: border_eval measure_eval two_paragraphs_def single_left_paragraph_def)
  from 1 2 3 show ?thesis by (simp only: simp_thms)
qed

section \<open>The claims about measures and round trips\<close>

subsection \<open>The universal measure\<close>















subsection \<open>Parsing, then validating\<close>



lemma validate_members_cases:
  "validate_members ms v = Inr () \<or> validate_members ms v = Inl ValueError
   \<or> validate_members ms v = Inl TypeError"
  by (cases v) (simp_all add: validate_members_def seq_def)

lemma validate_range_cases:
  "validate_int_in_range (PyInt n) lo hi = Inr () \<or> validate_int_in_range (PyInt n) lo hi = Inl ValueError"
  by (simp add: validate_int_in_range_int)

lemma int_from_xml_kind: "int_from_xml s = Inr v \<Longrightarrow> \<exists>n. v = PyInt n"
  by (auto simp: int_from_xml_def seq_def split: sum.splits)

lemma universal_measure_kind: "universal_measure s = Inr v \<Longrightarrow> \<exists>n. v = PyInt n"
  by (auto simp: universal_measure_def Let_def seq_def split: sum.splits)

lemma measure_kind:
  "(if c then universal_measure s else seq (py_int s) (\<lambda>n. Inr (PyInt (f n)))) = Inr v \<Longrightarrow> \<exists>n. v = PyInt n"
  by (auto simp: seq_def dest: universal_measure_kind split: sum.splits if_splits)

lemma RGBColor_from_string_kind: "RGBColor_from_string s = Inr v \<Longrightarrow> \<exists>r g b. v = PyRGBColor r g b"
  by (auto simp: RGBColor_from_string_def split: list.splits if_splits)

lemma parse_kind_int:
  assumes "cls \<in> set [BaseIntType, XsdInt, XsdLong, XsdUnsignedInt, XsdUnsignedLong, ST_Coordinate,
      ST_CoordinateUnqualified, ST_DecimalNumber, ST_DrawingElementId, ST_HpsMeasure, ST_PtsMeasure,
      ST_PositiveCoordinate, ST_SignedTwipsMeasure, ST_TwipsMeasure, ST_EighthsOfPointMeasure]"
    and "from_xml cls s = Inr v"
  shows "\<exists>n. v = PyInt n"
  using assms
  by (auto simp: from_xml_def seq_def dest!: int_from_xml_kind universal_measure_kind
      split: if_splits sum.splits)


lemma validate_after_int_parse:
  assumes "cls \<in> set [BaseIntType, XsdInt, XsdLong, XsdUnsignedInt, XsdUnsignedLong, ST_Coordinate,
      ST_CoordinateUnqualified, ST_DecimalNumber, ST_DrawingElementId, ST_HpsMeasure, ST_PtsMeasure,
      ST_PositiveCoordinate, ST_SignedTwipsMeasure, ST_TwipsMeasure, ST_EighthsOfPointMeasure]"
    and "from_xml cls s = Inr v"
  shows "validate cls v = Inr () \<or> validate cls v = Inl ValueError"
proof -
  from parse_kind_int [OF assms] obtain n where v: "v = PyInt n" ..
  show ?thesis
    using assms(1) unfolding v
    by (auto simp: validate_int_in_range_int validate_int_def split: if_splits)
qed

lemma validate_after_string_parse:
  assumes "cls \<in> set [BaseStringType, XsdAnyUri, XsdId, XsdString, XsdToken, ST_BrClear, ST_BrType,
      ST_HexColorAuto, ST_Merge, ST_RelationshipId, ST_String, ST_TblLayoutType, ST_TblWidth,
      ST_VerticalAlignRun, ST_BorderValue]"
  shows "from_xml cls s = Inr (PyStr s)"
    and "validate cls (PyStr s) = Inr () \<or> validate cls (PyStr s) = Inl ValueError"
  using assms by (auto simp: from_xml_def validate_members_str split: if_splits)

lemma validate_after_bool_parse:
  assumes "cls \<in> set [XsdBoolean, ST_OnOff]" and "from_xml cls s = Inr v"
  shows "validate cls v = Inr ()"
  using assms by (auto simp: from_xml_def py_in_bools split: if_splits)

lemma validate_after_color_parse:
  assumes "from_xml ST_HexColor s = Inr v"
  shows "validate ST_HexColor v = (if s = ''auto'' then Inl ValueError else Inr ())"
  using assms by (auto simp: from_xml_def dest: RGBColor_from_string_kind split: if_splits)

lemma simpletype_groups:
  "cls \<in> set [BaseSimpleType, BaseStringEnumerationType, XsdStringEnumeration, ST_UniversalMeasure]
   \<or> cls \<in> set [BaseIntType, XsdInt, XsdLong, XsdUnsignedInt, XsdUnsignedLong, ST_Coordinate,
      ST_CoordinateUnqualified, ST_DecimalNumber, ST_DrawingElementId, ST_HpsMeasure, ST_PtsMeasure,
      ST_PositiveCoordinate, ST_SignedTwipsMeasure, ST_TwipsMeasure, ST_EighthsOfPointMeasure]
   \<or> cls \<in> set [BaseStringType, XsdAnyUri, XsdId, XsdString, XsdToken, ST_BrClear, ST_BrType,
      ST_HexColorAuto, ST_Merge, ST_RelationshipId, ST_String, ST_TblLayoutType, ST_TblWidth,
      ST_VerticalAlignRun, ST_BorderValue]
   \<or> cls \<in> set [XsdBoolean, ST_OnOff]
   \<or> cls = ST_HexColor"
  by (cases cls) simp_all

text \<open>
  C1, as the source has it. No \<open>convert_from_xml\<close> calls \<open>validate\<close>. Where \<open>validate\<close>
  tests only the kind of the value (the plain string types, \<open>BaseIntType\<close>, the two
  booleans), what the parse returns passes. For every other type with a \<open>validate\<close>
  the parse returns the right kind of value, so \<open>validate\<close> passes or raises
  \<open>ValueError\<close>, never \<open>TypeError\<close>: \<open>ST_HexColor\<close> passes for every accepted text but
  \<open>"auto"\<close>, and an enumeration, whose parse returns its text, passes for the members.
\<close>

theorem C1_parse_then_validate:
  "(cls \<in> set [BaseStringType, XsdAnyUri, XsdId, XsdString, XsdToken, ST_RelationshipId,
                 ST_String, BaseIntType, XsdBoolean, ST_OnOff]
      \<and> from_xml cls s = Inr v \<longrightarrow> validate cls v = Inr ())
   \<and> (cls \<notin> set [BaseSimpleType, BaseStringEnumerationType, XsdStringEnumeration,
                    ST_UniversalMeasure]
      \<and> from_xml cls s = Inr v \<longrightarrow> validate cls v = Inr () \<or> validate cls v = Inl ValueError)
   \<and> (from_xml ST_HexColor s = Inr v \<longrightarrow>
        validate ST_HexColor v = (if s = ''auto'' then Inl ValueError else Inr ()))
   \<and> (cls \<in> set [ST_BrClear, ST_BrType, ST_HexColorAuto, ST_Merge, ST_TblLayoutType, ST_TblWidth,
                   ST_VerticalAlignRun, ST_BorderValue]
      \<longrightarrow> from_xml cls s = Inr (PyStr s))
   \<and> validate ST_BrClear (PyStr s) =
       (if s \<in> set [''none'', ''left'', ''right'', ''all''] then Inr () else Inl ValueError)
   \<and> validate ST_BrType (PyStr s) =
       (if s \<in> set [''page'', ''column'', ''textWrapping''] then Inr () else Inl ValueError)
   \<and> validate ST_HexColorAuto (PyStr s) =
       (if s \<in> set ST_HexColorAuto_members then Inr () else Inl ValueError)
   \<and> validate ST_Merge (PyStr s) =
       (if s \<in> set ST_Merge_members then Inr () else Inl ValueError)
   \<and> validate ST_TblLayoutType (PyStr s) =
       (if s \<in> set [''fixed'', ''autofit''] then Inr () else Inl ValueError)
   \<and> validate ST_TblWidth (PyStr s) =
       (if s \<in> set [''auto'', ''dxa'', ''nil'', ''pct''] then Inr () else Inl ValueError)
   \<and> validate ST_VerticalAlignRun (PyStr s) =
       (if s \<in> set ST_VerticalAlignRun_members then Inr () else Inl ValueError)
   \<and> validate ST_BorderValue (PyStr s) =
       (if s \<in> set ST_BorderValue_members then Inr () else Inl ValueError)"
proof -
  have kind: "validate cls v = Inr ()"
    if "cls \<in> set [BaseStringType, XsdAnyUri, XsdId, XsdString, XsdToken, ST_RelationshipId,
                 ST_String, BaseIntType, XsdBoolean, ST_OnOff]" and "from_xml cls s = Inr v"
    using that validate_after_bool_parse [of cls s v]
    by (auto simp: from_xml_def validate_int_def dest!: int_from_xml_kind)
  have any: "validate cls v = Inr () \<or> validate cls v = Inl ValueError"
    if "cls \<notin> set [BaseSimpleType, BaseStringEnumerationType, XsdStringEnumeration,
                    ST_UniversalMeasure]" and p: "from_xml cls s = Inr v"
  proof -
    from simpletype_groups [of cls] that(1) consider
      (int) "cls \<in> set [BaseIntType, XsdInt, XsdLong, XsdUnsignedInt, XsdUnsignedLong, ST_Coordinate,
        ST_CoordinateUnqualified, ST_DecimalNumber, ST_DrawingElementId, ST_HpsMeasure, ST_PtsMeasure,
        ST_PositiveCoordinate, ST_SignedTwipsMeasure, ST_TwipsMeasure, ST_EighthsOfPointMeasure]"
      | (str) "cls \<in> set [BaseStringType, XsdAnyUri, XsdId, XsdString, XsdToken, ST_BrClear, ST_BrType,
        ST_HexColorAuto, ST_Merge, ST_RelationshipId, ST_String, ST_TblLayoutType, ST_TblWidth,
        ST_VerticalAlignRun, ST_BorderValue]"
      | (bool) "cls \<in> set [XsdBoolean, ST_OnOff]"
      | (color) "cls = ST_HexColor"
      by blast
    then show ?thesis
    proof cases
      case int
      then show ?thesis using p by (rule validate_after_int_parse)
    next
      case str
      from validate_after_string_parse [OF str, of s] p show ?thesis by simp
    next
      case bool
      then show ?thesis using p by (simp add: validate_after_bool_parse)
    next
      case color
      then show ?thesis using validate_after_color_parse [of s v] p by simp
    qed
  qed
  have enum: "from_xml cls s = Inr (PyStr s)"
    if "cls \<in> set [ST_BrClear, ST_BrType, ST_HexColorAuto, ST_Merge, ST_TblLayoutType, ST_TblWidth,
                   ST_VerticalAlignRun, ST_BorderValue]"
    using that by (auto simp: from_xml_def)
  show ?thesis
    using kind any enum validate_after_color_parse [of s v]
    by (simp only: validate.simps validate_members_str simp_thms) blast
qed

theorem C1_parse_then_validate_witness:
  "from_xml XsdBoolean ''true'' = Inr (PyBool True)
   \<and> validate XsdBoolean (PyBool True) = Inr ()
   \<and> from_xml ST_HexColor ''FF0000'' = Inr (PyRGBColor 255 0 0)
   \<and> validate ST_HexColor (PyRGBColor 255 0 0) = Inr ()
   \<and> from_xml ST_Merge ''restart'' = Inr (PyStr ''restart'')
   \<and> validate ST_Merge (PyStr ''restart'') = Inr ()"
proof -
  have b: "from_xml XsdBoolean ''true'' = Inr (PyBool True)" by (simp add: from_xml_def)
  have c: "from_xml ST_HexColor ''FF0000'' = Inr (PyRGBColor 255 0 0)"
    by (simp add: from_xml_def RGBColor_from_string_def is_hex_digit_def hex_val_def)
  show ?thesis
    using C1_parse_then_validate [of XsdBoolean "''true''" "PyBool True"]
      C1_parse_then_validate [of ST_HexColor "''FF0000''" "PyRGBColor 255 0 0"]
      C1_parse_then_validate [of ST_Merge "''restart''" "PyStr ''restart''"] b c
    by (simp add: ST_Merge_members_def)
qed

text \<open>
  C1 as stated fails at \<open>ST_HexColor\<close> with \<open>"auto"\<close>, at an enumeration with a text that
  is no member, and at a bounded integer type with a numeral out of its range.
\<close>

theorem C1_parse_then_validate_counterexample:
  "from_xml ST_HexColor ''auto'' = Inr (PyStr ''auto'')
   \<and> validate ST_HexColor (PyStr ''auto'') = Inl ValueError
   \<and> from_xml ST_Merge ''bogus'' = Inr (PyStr ''bogus'')
   \<and> validate ST_Merge (PyStr ''bogus'') = Inl ValueError
   \<and> from_xml XsdInt ''2147483648'' = Inr (PyInt 2147483648)
   \<and> validate XsdInt (PyInt 2147483648) = Inl ValueError"
  by (simp add: from_xml_def validate_members_str ST_Merge_members_def int_from_xml_def
      seq_def py_int_def py_strip_def py_isspace_def split_sign_def is_digit_def
      nat_of_digits_def digit_val_def validate_int_in_range_int)

subsection \<open>Rendering, then parsing\<close>

















end
